theory Spec2Isabelle
  imports Main
begin

section \<open>Go values used by the deploy service\<close>

text \<open>
  The service is two Go programs with the same shape: \<^verbatim>\<open>src/main.go\<close> (registry
  credentials, resource limits, command override, restart policy) and the earlier variant
  \<^verbatim>\<open>src/unnamed/part_000\<close> (shared-secret header check, none of the former).
  Go strings are byte sequences, so \<open>string\<close> (a \<open>char list\<close>) is the model and
  \<open>length\<close> is Go's \<open>len\<close>.
\<close>

text \<open>
  An \<open>error\<close> value. \<open>ErrorString\<close> is what \<^verbatim>\<open>errors.New\<close> and
  \<^verbatim>\<open>fmt.Errorf\<close> build, and stands for any foreign error by its message;
  \<open>NumError\<close> is \<^verbatim>\<open>strconv.NumError{Func, Num, Err}\<close>.
\<close>

datatype numerr = ErrSyntax | ErrRange

datatype error = ErrorString string | NumError string string numerr

text \<open>A run-time panic of the Go program: the function does not return.\<close>

datatype panic = SliceBoundsOutOfRange

datatype 'a go = Panics panic | Returns 'a

text \<open>
  The parts of Go's standard library that need Unicode tables are parameters:
  \<open>MapToUpper\<close> is \<^verbatim>\<open>strings.Map(unicode.ToUpper, s)\<close>, which
  \<^verbatim>\<open>strings.ToUpper\<close> falls back to when \<open>s\<close> has a byte outside ASCII, and
  \<open>Quote\<close> is \<^verbatim>\<open>strconv.Quote\<close>, used by \<^verbatim>\<open>NumError.Error\<close>.
\<close>

record golib =
  MapToUpper :: "string \<Rightarrow> string"
  Quote :: "string \<Rightarrow> string"

definition byte :: "char \<Rightarrow> nat" where
  "byte c = of_char c"

fun numerr_Error :: "numerr \<Rightarrow> string" where
  "numerr_Error ErrSyntax = ''invalid syntax''"
| "numerr_Error ErrRange = ''value out of range''"

text \<open>\<^verbatim>\<open>err.Error()\<close>.\<close>

fun Error :: "golib \<Rightarrow> error \<Rightarrow> string" where
  "Error L (ErrorString s) = s"
| "Error L (NumError fn num e) =
     ''strconv.'' @ fn @ '': parsing '' @ Quote L num @ '': '' @ numerr_Error e"

subsection \<open>strings.HasPrefix, strings.ToUpper, slicing\<close>

text \<open>\<^verbatim>\<open>len(s) >= len(prefix) && s[:len(prefix)] == prefix\<close>\<close>

definition HasPrefix :: "string \<Rightarrow> string \<Rightarrow> bool" where
  "HasPrefix s pre = (length s \<ge> length pre \<and> take (length pre) s = pre)"

definition isASCII :: "string \<Rightarrow> bool" where
  "isASCII s = (\<forall>c \<in> set s. byte c < 128)"

definition upperByte :: "char \<Rightarrow> char" where
  "upperByte c = (if 97 \<le> byte c \<and> byte c \<le> 122 then char_of (byte c - 32) else c)"

text \<open>
  \<^verbatim>\<open>strings.ToUpper\<close>: an ASCII-only string is mapped byte by byte
  (\<^verbatim>\<open>c -= 'a' - 'A'\<close> on \<^verbatim>\<open>'a'..'z'\<close>); any other string goes through the Unicode
  mapping.
\<close>

definition ToUpper :: "golib \<Rightarrow> string \<Rightarrow> string" where
  "ToUpper L s = (if isASCII s then map upperByte s else MapToUpper L s)"

text \<open>\<^verbatim>\<open>s[i:]\<close> and \<^verbatim>\<open>s[:j]\<close> panic when the index is outside \<open>0..len(s)\<close>.\<close>

definition sliceFrom :: "string \<Rightarrow> int \<Rightarrow> string go" where
  "sliceFrom s i =
     (if i < 0 \<or> int (length s) < i then Panics SliceBoundsOutOfRange
      else Returns (drop (nat i) s))"

definition sliceTo :: "string \<Rightarrow> int \<Rightarrow> string go" where
  "sliceTo s j =
     (if j < 0 \<or> int (length s) < j then Panics SliceBoundsOutOfRange
      else Returns (take (nat j) s))"

subsection \<open>strconv.ParseInt(s, 10, 64)\<close>

text \<open>
  The digit of a byte as \<^verbatim>\<open>strconv.ParseUint\<close> reads it: \<^verbatim>\<open>'0'..'9'\<close> give
  \<open>0..9\<close>, a letter gives \<open>10..35\<close> (\<^verbatim>\<open>lower(c) = c | 0x20\<close>), anything else
  (the underscore too, as the base is not 0) is a syntax error.
\<close>

definition lowerByte :: "nat \<Rightarrow> nat" where
  "lowerByte c = (if (c div 32) mod 2 = 1 then c else c + 32)"

definition digitOf :: "char \<Rightarrow> nat option" where
  "digitOf c =
     (if 48 \<le> byte c \<and> byte c \<le> 57 then Some (byte c - 48)
      else if 97 \<le> lowerByte (byte c) \<and> lowerByte (byte c) \<le> 122
        then Some (lowerByte (byte c) - 97 + 10)
      else None)"

definition maxUint64 :: nat where
  "maxUint64 = 2 ^ 64 - 1"

text \<open>
  The loop of \<^verbatim>\<open>ParseUint\<close> in base 10 with \<^verbatim>\<open>bitSize\<close> 64. The source works
  in \<^verbatim>\<open>uint64\<close>: \<^verbatim>\<open>n >= cutoff\<close> (\<^verbatim>\<open>cutoff = maxUint64/10 + 1\<close>) says that
  \<^verbatim>\<open>n*10\<close> would overflow, and \<^verbatim>\<open>n1 < n\<close> that \<^verbatim>\<open>n*10 + d\<close> wrapped, which
  on \<open>nat\<close> is \<open>n * 10 + d > maxUint64\<close>. A range error returns \<^verbatim>\<open>maxVal\<close>
  with the error.
\<close>

fun parseUintLoop :: "string \<Rightarrow> nat \<Rightarrow> string \<Rightarrow> nat \<times> error option" where
  "parseUintLoop s0 n [] = (n, None)"
| "parseUintLoop s0 n (c # cs) =
     (case digitOf c of
        None \<Rightarrow> (0, Some (NumError ''ParseUint'' s0 ErrSyntax))
      | Some d \<Rightarrow>
          if d \<ge> 10 then (0, Some (NumError ''ParseUint'' s0 ErrSyntax))
          else if n \<ge> maxUint64 div 10 + 1 then (maxUint64, Some (NumError ''ParseUint'' s0 ErrRange))
          else if n * 10 + d > maxUint64 then (maxUint64, Some (NumError ''ParseUint'' s0 ErrRange))
          else parseUintLoop s0 (n * 10 + d) cs)"

definition ParseUint :: "string \<Rightarrow> nat \<times> error option" where
  "ParseUint s =
     (if s = [] then (0, Some (NumError ''ParseUint'' s ErrSyntax))
      else parseUintLoop s 0 s)"

text \<open>
  \<^verbatim>\<open>ParseInt\<close>: an optional sign, then \<^verbatim>\<open>ParseUint\<close>; a syntax error is
  returned under the name \<^verbatim>\<open>ParseInt\<close> with the whole input; the value must fit
  \<^verbatim>\<open>int64\<close>. The result is the \<^verbatim>\<open>int64\<close> value as an \<open>int\<close>.
\<close>

definition ParseInt :: "string \<Rightarrow> error + int" where
  "ParseInt s0 =
     (case s0 of
        [] \<Rightarrow> Inl (NumError ''ParseInt'' s0 ErrSyntax)
      | c # cs \<Rightarrow>
          let neg = (c = CHR ''-'');
              s = (if c = CHR ''+'' \<or> c = CHR ''-'' then cs else s0);
              (un, err) = ParseUint s
          in (case err of
                Some (NumError fn num ErrSyntax) \<Rightarrow> Inl (NumError ''ParseInt'' s0 ErrSyntax)
              | _ \<Rightarrow>
                  if \<not> neg \<and> un \<ge> 2 ^ 63 then Inl (NumError ''ParseInt'' s0 ErrRange)
                  else if neg \<and> un > 2 ^ 63 then Inl (NumError ''ParseInt'' s0 ErrRange)
                  else Inr (if neg then - int un else int un)))"

text \<open>\<^verbatim>\<open>int64\<close> multiplication wraps around.\<close>

definition wrap64 :: "int \<Rightarrow> int" where
  "wrap64 x = (x + 2 ^ 63) mod 2 ^ 64 - 2 ^ 63"

definition mul64 :: "int \<Rightarrow> int \<Rightarrow> int" where
  "mul64 a b = wrap64 (a * b)"

section \<open>convertToBytes (main.go, lines 50 to 72)\<close>

definition units :: "string \<rightharpoonup> int" where
  "units = map_of
     [(''KB'', 1024),
      (''MB'', 1024 * 1024),
      (''GB'', 1024 * 1024 * 1024),
      (''TB'', 1024 * 1024 * 1024 * 1024)]"

text \<open>
  Lines 66 to 71: the number is what is left of \<open>val\<close> after dropping \<open>len(unit)\<close>
  bytes, and the result is \<^verbatim>\<open>num * units[unit]\<close>.
\<close>

definition parseNumber :: "string \<Rightarrow> string \<Rightarrow> int \<Rightarrow> (error + int) go" where
  "parseNumber val unit mult =
     (case sliceTo val (int (length val) - int (length unit)) of
        Panics p \<Rightarrow> Panics p
      | Returns numStr \<Rightarrow>
          (case ParseInt numStr of
             Inl err \<Rightarrow> Returns (Inl err)
           | Inr num \<Rightarrow> Returns (Inr (mul64 num mult))))"

definition convertToBytes :: "golib \<Rightarrow> string \<Rightarrow> (error + int) go" where
  "convertToBytes L val0 =
     (let val = ToUpper L val0 in
      case sliceFrom val (int (length val) - 2) of
        Panics p \<Rightarrow> Panics p
      | Returns unit \<Rightarrow>
          (case units unit of
             Some mult \<Rightarrow> parseNumber val unit mult
           | None \<Rightarrow>
               (case sliceFrom val (int (length val) - 1) of
                  Panics p \<Rightarrow> Panics p
                | Returns unit1 \<Rightarrow>
                    (case units unit1 of
                       None \<Rightarrow> Returns (Inl (ErrorString (''Invalid unit: '' @ unit1)))
                     | Some mult1 \<Rightarrow>
                         (case sliceTo val (int (length val) - 1) of
                            Panics p \<Rightarrow> Panics p
                          | Returns val1 \<Rightarrow> parseNumber val1 unit1 mult1)))))"

section \<open>Requests and the container engine's types\<close>

record DockerPortBindingRequest =
  Container :: string
  Host :: string

record DockerVolumeBindingRequest =
  Source :: string
  Target :: string

text \<open>The request of \<^verbatim>\<open>main.go\<close>.\<close>

record DockerRequest =
  ContainerName :: string
  CustomCommand :: "string list"
  Image :: string
  PortBindings :: "DockerPortBindingRequest list"
  VolumeBindings :: "DockerVolumeBindingRequest list"
  Environment :: "string list"
  Memory :: string
  CPUShares :: string

text \<open>The request of \<^verbatim>\<open>part_000\<close>, which has five fields.\<close>

record DockerRequest_part000 =
  ContainerName_p :: string
  Image_p :: string
  PortBindings_p :: "DockerPortBindingRequest list"
  VolumeBindings_p :: "DockerVolumeBindingRequest list"
  Environment_p :: "string list"

text \<open>
  The fields of \<^verbatim>\<open>container.HostConfig\<close> and \<^verbatim>\<open>container.Config\<close> that the
  service sets; every other field keeps its zero value. A \<^verbatim>\<open>nil\<close> slice is the
  empty list, a \<^verbatim>\<open>nil\<close> map the empty map, \<^verbatim>\<open>nat.PortSet\<close> a set of ports.
\<close>

record RestartPolicy =
  Name :: string

record Resources =
  res_Memory :: int
  res_CPUShares :: int

datatype mount_type = TypeUnset | TypeBind

record Mount =
  mnt_Type :: mount_type
  mnt_Source :: string
  mnt_Target :: string

record PortBinding =
  HostIP :: string
  HostPort :: string

record HostConfig =
  hc_RestartPolicy :: RestartPolicy
  hc_Resources :: Resources
  hc_Mounts :: "Mount list"
  hc_PortBindings :: "string \<rightharpoonup> PortBinding list"

record Config =
  cfg_Image :: string
  cfg_Cmd :: "string list"
  cfg_Env :: "string list"
  cfg_ExposedPorts :: "string set"

definition zeroResources :: Resources where
  "zeroResources = \<lparr>res_Memory = 0, res_CPUShares = 0\<rparr>"

text \<open>\<^verbatim>\<open>&container.HostConfig{}\<close>\<close>

definition zeroHostConfig :: HostConfig where
  "zeroHostConfig =
     \<lparr>hc_RestartPolicy = \<lparr>Name = []\<rparr>, hc_Resources = zeroResources,
      hc_Mounts = [], hc_PortBindings = Map.empty\<rparr>"

section \<open>The outside world\<close>

text \<open>
  The container engine and the credential store are external: what each call returns is a
  parameter. \<open>'e\<close> is the state of the outside world, which every engine call may
  change; \<open>'c\<close> is the loaded credential configuration and \<open>'a\<close> an
  \<^verbatim>\<open>AuthConfig\<close>. \<open>Marshal\<close> is \<^verbatim>\<open>json.Marshal\<close> on an \<^verbatim>\<open>AuthConfig\<close>
  and \<open>EncodeToString\<close> is \<^verbatim>\<open>base64.StdEncoding.EncodeToString\<close>.
  \<open>ContainerCreate\<close> returns the new container's ID.
\<close>

record ('e, 'c, 'a) engine =
  Load :: "'e \<Rightarrow> error + 'c"
  GetAuthConfig :: "'c \<Rightarrow> string \<Rightarrow> 'a \<times> error option"
  Marshal :: "'a \<Rightarrow> string \<times> error option"
  EncodeToString :: "string \<Rightarrow> string"
  ImagePull :: "string \<Rightarrow> string \<Rightarrow> 'e \<Rightarrow> error option \<times> 'e"
  ContainerInspect :: "string \<Rightarrow> 'e \<Rightarrow> error option \<times> 'e"
  ContainerStop :: "string \<Rightarrow> 'e \<Rightarrow> error option \<times> 'e"
  ContainerRemove :: "string \<Rightarrow> 'e \<Rightarrow> error option \<times> 'e"
  ContainerCreate :: "Config \<Rightarrow> HostConfig \<Rightarrow> string \<Rightarrow> 'e \<Rightarrow> (error + string) \<times> 'e"
  ContainerStart :: "string \<Rightarrow> 'e \<Rightarrow> error option \<times> 'e"

text \<open>The engine calls made so far, in order, with their arguments.\<close>

datatype call =
  CallImagePull string string
| CallContainerInspect string
| CallContainerStop string
| CallContainerRemove string
| CallContainerCreate Config HostConfig string
| CallContainerStart string

text \<open>
  What a request changes: the outside world, the engine calls made, and the lines written
  with \<^verbatim>\<open>fmt.Println\<close>.
\<close>

record 'e world =
  ext :: 'e
  calls :: "call list"
  stdout :: "string list"

definition Println :: "string \<Rightarrow> 'e world \<Rightarrow> 'e world" where
  "Println line w = w\<lparr>stdout := stdout w @ [line]\<rparr>"

definition engineCall :: "call \<Rightarrow> ('e \<Rightarrow> 'r \<times> 'e) \<Rightarrow> 'e world \<Rightarrow> 'r \<times> 'e world" where
  "engineCall c f w =
     (let (r, e') = f (ext w) in (r, w\<lparr>ext := e', calls := calls w @ [c]\<rparr>))"

definition isCreate :: "call \<Rightarrow> bool" where
  "isCreate c = (case c of CallContainerCreate cfg hc n \<Rightarrow> True | _ \<Rightarrow> False)"

definition isStart :: "call \<Rightarrow> bool" where
  "isStart c = (case c of CallContainerStart i \<Rightarrow> True | _ \<Rightarrow> False)"

section \<open>startContainer\<close>

definition privateDockerRegistry :: string where
  "privateDockerRegistry = ''d.puneet.cc''"

subsection \<open>The steps both programs share\<close>

text \<open>
  Best-effort cleanup (main.go lines 102 to 113, part_000 lines 56 to 67): when the
  inspect call returns no error the container is stopped and removed, and an error of
  either call is printed and dropped.
\<close>

definition cleanup :: "golib \<Rightarrow> ('e, 'c, 'a) engine \<Rightarrow> string \<Rightarrow> 'e world \<Rightarrow> 'e world" where
  "cleanup L D name w =
     (let (err, w1) = engineCall (CallContainerInspect name) (ContainerInspect D name) w in
      case err of
        Some e \<Rightarrow> w1
      | None \<Rightarrow>
          let (err2, w2) = engineCall (CallContainerStop name) (ContainerStop D name) w1;
              w3 = (case err2 of
                      Some e \<Rightarrow> Println (''[startContainer][ContainerStop][ERROR] : '' @ Error L e) w2
                    | None \<Rightarrow> w2);
              (err3, w4) = engineCall (CallContainerRemove name) (ContainerRemove D name) w3
          in (case err3 of
                Some e \<Rightarrow> Println (''[startContainer][ContainerRemove][ERROR] : '' @ Error L e) w4
              | None \<Rightarrow> w4))"

text \<open>Volume bindings (main.go lines 144 to 154): one bind mount appended per binding.\<close>

definition addMounts :: "DockerVolumeBindingRequest list \<Rightarrow> HostConfig \<Rightarrow> HostConfig" where
  "addMounts vols hc =
     (if length vols > 0
      then foldl (\<lambda>h volume. h\<lparr>hc_Mounts := hc_Mounts h @
                    [\<lparr>mnt_Type = TypeBind, mnt_Source = Source volume, mnt_Target = Target volume\<rparr>]\<rparr>)
             (hc\<lparr>hc_Mounts := []\<rparr>) vols
      else hc)"

text \<open>
  Port bindings (main.go lines 156 to 164): the map entry of the container port is
  assigned a one-element slice, so a later binding of the same container port replaces
  an earlier one.
\<close>

definition portMap :: "DockerPortBindingRequest list \<Rightarrow> (string \<rightharpoonup> PortBinding list)" where
  "portMap ports =
     foldl (\<lambda>m port. m(Container port \<mapsto> [\<lparr>HostIP = ''0.0.0.0'', HostPort = Host port\<rparr>]))
       Map.empty ports"

definition addPortBindings :: "DockerPortBindingRequest list \<Rightarrow> HostConfig \<Rightarrow> HostConfig" where
  "addPortBindings ports hc =
     (if length ports > 0 then hc\<lparr>hc_PortBindings := portMap ports\<rparr> else hc)"

text \<open>Exposed ports (main.go lines 176 to 182).\<close>

definition portSet :: "DockerPortBindingRequest list \<Rightarrow> string set" where
  "portSet ports = foldl (\<lambda>ps port. insert (Container port) ps) {} ports"

definition addExposedPorts :: "DockerPortBindingRequest list \<Rightarrow> Config \<Rightarrow> Config" where
  "addExposedPorts ports cfg =
     (if length ports > 0 then cfg\<lparr>cfg_ExposedPorts := portSet ports\<rparr> else cfg)"

text \<open>
  Create and start (main.go lines 184 to 196): a create error is printed and returned;
  otherwise the result is that of the start call on the new container's ID.
\<close>

definition createAndStart ::
  "golib \<Rightarrow> ('e, 'c, 'a) engine \<Rightarrow> Config \<Rightarrow> HostConfig \<Rightarrow> string \<Rightarrow> 'e world \<Rightarrow> error option \<times> 'e world" where
  "createAndStart L D containerConfig hostConfig name w =
     (let (c, w1) = engineCall (CallContainerCreate containerConfig hostConfig name)
                      (ContainerCreate D containerConfig hostConfig name) w in
      case c of
        Inl err \<Rightarrow> (Some err, Println (''[startContainer][ContainerCreate][ERROR] : '' @ Error L err) w1)
      | Inr cid \<Rightarrow> engineCall (CallContainerStart cid) (ContainerStart D cid) w1)"

subsection \<open>main.go\<close>

text \<open>
  Memory and CPU shares (lines 121 to 142). A parse error is printed and returned; a
  panic of \<open>convertToBytes\<close> goes up.
\<close>

definition resourceLimits ::
  "golib \<Rightarrow> DockerRequest \<Rightarrow> HostConfig \<Rightarrow> 'e world \<Rightarrow> (error + HostConfig) go \<times> 'e world" where
  "resourceLimits L request hc0 w =
     (let hc1 = (if Memory request \<noteq> [] \<or> CPUShares request \<noteq> []
                 then hc0\<lparr>hc_Resources := zeroResources\<rparr> else hc0);
          cpu = (\<lambda>hc2.
            if CPUShares request \<noteq> [] then
              (case ParseInt (CPUShares request) of
                 Inl err \<Rightarrow>
                   (Returns (Inl err),
                    Println (''[startContainer][CPUShares-Parsing][ERROR] : '' @ Error L err) w)
               | Inr cpuShares \<Rightarrow>
                   (Returns (Inr (hc2\<lparr>hc_Resources := (hc_Resources hc2)\<lparr>res_CPUShares := cpuShares\<rparr>\<rparr>)), w))
            else (Returns (Inr hc2), w))
      in if Memory request \<noteq> [] then
           (case convertToBytes L (Memory request) of
              Panics p \<Rightarrow> (Panics p, w)
            | Returns (Inl err) \<Rightarrow>
                (Returns (Inl err),
                 Println (''[startContainer][Memory-Parsing][ERROR] : '' @ Error L err) w)
            | Returns (Inr memoryInBytes) \<Rightarrow>
                cpu (hc1\<lparr>hc_Resources := (hc_Resources hc1)\<lparr>res_Memory := memoryInBytes\<rparr>\<rparr>))
         else cpu hc1)"

text \<open>The container-level configuration (lines 166 to 182).\<close>

definition containerConfig :: "DockerRequest \<Rightarrow> Config" where
  "containerConfig request =
     (let c0 = \<lparr>cfg_Image = Image request, cfg_Cmd = [], cfg_Env = [], cfg_ExposedPorts = {}\<rparr>;
          c1 = (if length (CustomCommand request) > 0 then c0\<lparr>cfg_Cmd := CustomCommand request\<rparr> else c0);
          c2 = (if length (Environment request) > 0 then c1\<lparr>cfg_Env := Environment request\<rparr> else c1)
      in addExposedPorts (PortBindings request) c2)"

text \<open>
  Lines 115 to 196, what follows the cleanup: the host configuration starts from the zero
  value with the restart policy \<open>always\<close>, then resource limits, mounts and port
  bindings; then the container is created and started.
\<close>

definition provision ::
  "golib \<Rightarrow> ('e, 'c, 'a) engine \<Rightarrow> DockerRequest \<Rightarrow> 'e world \<Rightarrow> error option go \<times> 'e world" where
  "provision L D request w =
     (case resourceLimits L request (zeroHostConfig\<lparr>hc_RestartPolicy := \<lparr>Name = ''always''\<rparr>\<rparr>) w of
        (Panics p, w1) \<Rightarrow> (Panics p, w1)
      | (Returns (Inl err), w1) \<Rightarrow> (Returns (Some err), w1)
      | (Returns (Inr hc), w1) \<Rightarrow>
          let hostConfig = addPortBindings (PortBindings request) (addMounts (VolumeBindings request) hc);
              (err, w2) = createAndStart L D (containerConfig request) hostConfig (ContainerName request) w1
          in (Returns err, w2))"

text \<open>
  Lines 85 to 88: the errors of \<^verbatim>\<open>GetAuthConfig\<close> and of \<^verbatim>\<open>json.Marshal\<close> are
  discarded (\<^verbatim>\<open>conf, _ :=\<close>).
\<close>

definition registryAuth :: "('e, 'c, 'a) engine \<Rightarrow> 'c \<Rightarrow> string" where
  "registryAuth D cfg =
     (let (conf, err1) = GetAuthConfig D cfg privateDockerRegistry;
          (jsonRegistryAuth, err2) = Marshal D conf
      in EncodeToString D jsonRegistryAuth)"

text \<open>
  \<open>startContainer\<close> of main.go (lines 74 to 197). The pull's progress stream is copied
  to the standard error stream and its result ignored (lines 99 and 100); that output is
  not part of the model.
\<close>

definition startContainer ::
  "golib \<Rightarrow> ('e, 'c, 'a) engine \<Rightarrow> DockerRequest \<Rightarrow> 'e world \<Rightarrow> error option go \<times> 'e world" where
  "startContainer L D request w =
     (if \<not> HasPrefix (Image request) privateDockerRegistry
      then (Returns (Some (ErrorString (''only '' @ privateDockerRegistry @ '' images supported''))), w)
      else
        case Load D (ext w) of
          Inl err \<Rightarrow> (Returns (Some (ErrorString ''config load failed'')), w)
        | Inr cfg \<Rightarrow>
            let (err, w1) = engineCall (CallImagePull (Image request) (registryAuth D cfg))
                              (ImagePull D (Image request) (registryAuth D cfg)) w
            in (case err of
                  Some e \<Rightarrow> (Returns (Some e), w1)
                | None \<Rightarrow> provision L D request (cleanup L D (ContainerName request) w1)))"

text \<open>The JSON body \<^verbatim>\<open>{"error": .., "message": ..}\<close> with the HTTP status.\<close>

record response =
  Status :: nat
  json_error :: int
  json_message :: string

text \<open>
  The handler of \<^verbatim>\<open>POST /\<close> (lines 208 to 221). \<open>BodyParser\<close> is the framework's
  decoding of the request body; \<^verbatim>\<open>c.JSON\<close> without \<^verbatim>\<open>c.Status\<close> answers 200.
\<close>

definition handler ::
  "golib \<Rightarrow> ('e, 'c, 'a) engine \<Rightarrow> ('b \<Rightarrow> error + DockerRequest) \<Rightarrow> 'b \<Rightarrow> 'e world \<Rightarrow> response go \<times> 'e world" where
  "handler L D BodyParser body w =
     (case BodyParser body of
        Inl err \<Rightarrow> (Returns \<lparr>Status = 500, json_error = 1, json_message = Error L err\<rparr>, w)
      | Inr request \<Rightarrow>
          (case startContainer L D request w of
             (Panics p, w1) \<Rightarrow> (Panics p, w1)
           | (Returns (Some err), w1) \<Rightarrow>
               (Returns \<lparr>Status = 500, json_error = 1, json_message = Error L err\<rparr>, w1)
           | (Returns None, w1) \<Rightarrow>
               (Returns \<lparr>Status = 200, json_error = 0, json_message = ''Container Started''\<rparr>, w1)))"

subsection \<open>part_000\<close>

text \<open>The container-level configuration (lines 93 to 105): no command override.\<close>

definition containerConfig_part000 :: "DockerRequest_part000 \<Rightarrow> Config" where
  "containerConfig_part000 request =
     (let c0 = \<lparr>cfg_Image = Image_p request, cfg_Cmd = [], cfg_Env = [], cfg_ExposedPorts = {}\<rparr>;
          c1 = (if length (Environment_p request) > 0 then c0\<lparr>cfg_Env := Environment_p request\<rparr> else c0)
      in addExposedPorts (PortBindings_p request) c1)"

text \<open>
  \<open>startContainer\<close> of part_000 (lines 41 to 120): the pull carries no registry
  credentials, and the host configuration starts from the zero value and gets mounts and
  port bindings only.
\<close>

definition startContainer_part000 ::
  "golib \<Rightarrow> ('e, 'c, 'a) engine \<Rightarrow> DockerRequest_part000 \<Rightarrow> 'e world \<Rightarrow> error option go \<times> 'e world" where
  "startContainer_part000 L D request w =
     (if \<not> HasPrefix (Image_p request) ''d.puneet.cc''
      then (Returns (Some (ErrorString ''only d.puneet.cc images supported'')), w)
      else
        let (err, w1) = engineCall (CallImagePull (Image_p request) [])
                          (ImagePull D (Image_p request) []) w
        in case err of
             Some e \<Rightarrow> (Returns (Some e), w1)
           | None \<Rightarrow>
               let w2 = cleanup L D (ContainerName_p request) w1;
                   hostConfig = addPortBindings (PortBindings_p request)
                                  (addMounts (VolumeBindings_p request) zeroHostConfig);
                   (err2, w3) = createAndStart L D (containerConfig_part000 request) hostConfig
                                  (ContainerName_p request) w2
               in (Returns err2, w3))"

text \<open>
  The handler of part_000 (lines 131 to 144): \<open>apiKey\<close> is the request's
  \<^verbatim>\<open>x-api-key\<close> header and \<open>secret\<close> the environment's
  \<^verbatim>\<open>DOCKER_DEPLOY_SECRET\<close>.
\<close>

definition handler_part000 ::
  "golib \<Rightarrow> ('e, 'c, 'a) engine \<Rightarrow> string \<Rightarrow> string \<Rightarrow> ('b \<Rightarrow> error + DockerRequest_part000) \<Rightarrow> 'b
     \<Rightarrow> 'e world \<Rightarrow> response go \<times> 'e world" where
  "handler_part000 L D apiKey secret BodyParser body w =
     (if apiKey \<noteq> secret
      then (Returns \<lparr>Status = 500, json_error = 1, json_message = ''Unauthorised Access''\<rparr>, w)
      else
        case BodyParser body of
          Inl err \<Rightarrow> (Returns \<lparr>Status = 500, json_error = 1, json_message = Error L err\<rparr>, w)
        | Inr request \<Rightarrow>
            (case startContainer_part000 L D request w of
               (Panics p, w1) \<Rightarrow> (Panics p, w1)
             | (Returns (Some err), w1) \<Rightarrow>
                 (Returns \<lparr>Status = 500, json_error = 1, json_message = Error L err\<rparr>, w1)
             | (Returns None, w1) \<Rightarrow>
                 (Returns \<lparr>Status = 200, json_error = 0, json_message = ''Container Started''\<rparr>, w1)))"

section \<open>Stand-ins for running the programs on examples\<close>

text \<open>
  A library for ASCII input: \<open>strconv.Quote\<close> puts a printable ASCII string without
  quotes or backslashes between double quotes, and the Unicode mapping is not reached.
\<close>

definition asciiLib :: golib where
  "asciiLib = \<lparr>MapToUpper = (\<lambda>s. s), Quote = (\<lambda>s. CHR 0x22 # s @ [CHR 0x22])\<rparr>"

text \<open>
  The same library with the Unicode mapping of the one-byte string \<open>0xFF\<close>: the
  byte is not valid UTF-8, and \<^verbatim>\<open>strings.Map\<close> writes the replacement character
  U+FFFD in its place, the three bytes \<open>0xEF 0xBF 0xBD\<close>.
\<close>

definition replacementLib :: golib where
  "replacementLib =
     asciiLib\<lparr>MapToUpper := (\<lambda>s. if s = [CHR 0xFF] then [CHR 0xEF, CHR 0xBF, CHR 0xBD] else s)\<rparr>"

text \<open>
  An engine where every call succeeds and a container of the requested name exists; the
  state of the outside world counts the engine calls. The stored credentials are
  \<open>{}\<close>, whose base64 is \<open>e30=\<close>; the base64 of the empty string is empty.
\<close>

definition okEngine :: "(nat, unit, unit) engine" where
  "okEngine =
     \<lparr>Load = (\<lambda>e. Inr ()),
      GetAuthConfig = (\<lambda>c host. ((), None)),
      Marshal = (\<lambda>a. (''{}'', None)),
      EncodeToString = (\<lambda>s. if s = ''{}'' then ''e30='' else []),
      ImagePull = (\<lambda>image auth e. (None, Suc e)),
      ContainerInspect = (\<lambda>name e. (None, Suc e)),
      ContainerStop = (\<lambda>name e. (None, Suc e)),
      ContainerRemove = (\<lambda>name e. (None, Suc e)),
      ContainerCreate = (\<lambda>cfg hc name e. (Inr ''c0ffee'', Suc e)),
      ContainerStart = (\<lambda>cid e. (None, Suc e))\<rparr>"

text \<open>The same engine when stopping and removing the old container both fail.\<close>

definition stuckEngine :: "(nat, unit, unit) engine" where
  "stuckEngine =
     okEngine
       \<lparr>ContainerStop := (\<lambda>name e. (Some (ErrorString ''stop timed out''), Suc e)),
        ContainerRemove := (\<lambda>name e. (Some (ErrorString ''removal in progress''), Suc e))\<rparr>"

text \<open>
  The same engine when the credential lookup fails: it reports an error with the empty
  \<^verbatim>\<open>AuthConfig\<close>, which still encodes to \<open>{}\<close>.
\<close>

definition noCredsEngine :: "(nat, unit, unit) engine" where
  "noCredsEngine =
     okEngine\<lparr>GetAuthConfig := (\<lambda>c host. ((), Some (ErrorString ''credentials not found'')))\<rparr>"

text \<open>The same engine when the create call fails.\<close>

definition nameTakenEngine :: "(nat, unit, unit) engine" where
  "nameTakenEngine =
     okEngine\<lparr>ContainerCreate := (\<lambda>cfg hc name e. (Inl (ErrorString ''name already in use''), Suc e))\<rparr>"

text \<open>The same engine when the credential configuration cannot be loaded.\<close>

definition noConfigEngine :: "(nat, unit, unit) engine" where
  "noConfigEngine = okEngine\<lparr>Load := (\<lambda>e. Inl (ErrorString ''open config.json: permission denied''))\<rparr>"

definition world0 :: "nat world" where
  "world0 = \<lparr>ext = 0, calls = [], stdout = []\<rparr>"

text \<open>The request of the specification's end-to-end example, for either program.\<close>

definition svc1 :: DockerRequest where
  "svc1 =
     \<lparr>ContainerName = ''svc1'', CustomCommand = [], Image = ''d.puneet.cc/app:latest'',
      PortBindings = [\<lparr>Container = ''80/tcp'', Host = ''8080''\<rparr>],
      VolumeBindings = [], Environment = [], Memory = [], CPUShares = []\<rparr>"

definition svc1_part000 :: DockerRequest_part000 where
  "svc1_part000 =
     \<lparr>ContainerName_p = ''svc1'', Image_p = ''d.puneet.cc/app:latest'',
      PortBindings_p = [\<lparr>Container = ''80/tcp'', Host = ''8080''\<rparr>],
      VolumeBindings_p = [], Environment_p = []\<rparr>"

text \<open>The identity body parser: the body is the decoded request.\<close>

definition decoded :: "'r \<Rightarrow> error + 'r" where
  "decoded r = Inr r"

section \<open>Reading a run\<close>

text \<open>The engine calls made between two worlds of one run.\<close>

definition newCalls :: "'e world \<Rightarrow> 'e world \<Rightarrow> call list" where
  "newCalls w w' = drop (length (calls w)) (calls w')"

text \<open>The arguments of the create calls of a trace.\<close>

fun createdWith :: "call list \<Rightarrow> (Config \<times> HostConfig \<times> string) list" where
  "createdWith [] = []"
| "createdWith (CallContainerCreate cfg hc name # cs) = (cfg, hc, name) # createdWith cs"
| "createdWith (c # cs) = createdWith cs"

text \<open>The world after a pull that leaves the outside world as \<open>e1\<close>.\<close>

definition pulled :: "'e world \<Rightarrow> string \<Rightarrow> string \<Rightarrow> 'e \<Rightarrow> 'e world" where
  "pulled w ref auth e1 = w\<lparr>ext := e1, calls := calls w @ [CallImagePull ref auth]\<rparr>"

text \<open>The world in which each program goes on after such a pull and the cleanup.\<close>

definition cleaned ::
  "golib \<Rightarrow> ('e, 'c, 'a) engine \<Rightarrow> DockerRequest \<Rightarrow> 'c \<Rightarrow> 'e \<Rightarrow> 'e world \<Rightarrow> 'e world" where
  "cleaned L D request cfg e1 w =
     cleanup L D (ContainerName request) (pulled w (Image request) (registryAuth D cfg) e1)"

definition cleaned_part000 ::
  "golib \<Rightarrow> ('e, 'c, 'a) engine \<Rightarrow> DockerRequest_part000 \<Rightarrow> 'e \<Rightarrow> 'e world \<Rightarrow> 'e world" where
  "cleaned_part000 L D request e1 w =
     cleanup L D (ContainerName_p request) (pulled w (Image_p request) [] e1)"

text \<open>The two responses of the handlers.\<close>

definition started :: response where
  "started = \<lparr>Status = 200, json_error = 0, json_message = ''Container Started''\<rparr>"

definition failed :: "string \<Rightarrow> response" where
  "failed message = \<lparr>Status = 500, json_error = 1, json_message = message\<rparr>"

text \<open>The start call that follows a create call, when the create call succeeds.\<close>

definition startCalls ::
  "('e, 'c, 'a) engine \<Rightarrow> Config \<Rightarrow> HostConfig \<Rightarrow> string \<Rightarrow> 'e \<Rightarrow> call list" where
  "startCalls D cfg hc name e =
     (case fst (ContainerCreate D cfg hc name e) of
        Inl err \<Rightarrow> []
      | Inr cid \<Rightarrow> [CallContainerStart cid])"

text \<open>The host configuration of main.go before the resource limits (lines 115 to 119).\<close>

definition restartAlways :: HostConfig where
  "restartAlways = zeroHostConfig\<lparr>hc_RestartPolicy := \<lparr>Name = ''always''\<rparr>\<rparr>"

text \<open>The host configuration main.go passes on once the resource limits are in \<open>hc\<close>.\<close>

definition hostConfigOf :: "DockerRequest \<Rightarrow> HostConfig \<Rightarrow> HostConfig" where
  "hostConfigOf request hc =
     addPortBindings (PortBindings request) (addMounts (VolumeBindings request) hc)"

text \<open>The host configuration of part_000 (lines 69 to 91).\<close>

definition hostConfig_part000 :: "DockerRequest_part000 \<Rightarrow> HostConfig" where
  "hostConfig_part000 request =
     addPortBindings (PortBindings_p request) (addMounts (VolumeBindings_p request) zeroHostConfig)"

text \<open>What the create call returns in a run that gets that far, in each program.\<close>

definition createResult ::
  "golib \<Rightarrow> ('e, 'c, 'a) engine \<Rightarrow> DockerRequest \<Rightarrow> 'c \<Rightarrow> 'e \<Rightarrow> HostConfig \<Rightarrow> 'e world
     \<Rightarrow> (error + string) \<times> 'e" where
  "createResult L D request cfg e1 hc w =
     ContainerCreate D (containerConfig request) (hostConfigOf request hc) (ContainerName request)
       (ext (cleaned L D request cfg e1 w))"

definition createResult_part000 ::
  "golib \<Rightarrow> ('e, 'c, 'a) engine \<Rightarrow> DockerRequest_part000 \<Rightarrow> 'e \<Rightarrow> 'e world
     \<Rightarrow> (error + string) \<times> 'e" where
  "createResult_part000 L D request e1 w =
     ContainerCreate D (containerConfig_part000 request) (hostConfig_part000 request)
       (ContainerName_p request) (ext (cleaned_part000 L D request e1 w))"

text \<open>What the create calls of a trace bind a container port to.\<close>

definition boundHostPorts :: "string \<Rightarrow> call list \<Rightarrow> PortBinding list option list" where
  "boundHostPorts port cs = map (\<lambda>(cfg, hc, name). hc_PortBindings hc port) (createdWith cs)"

text \<open>The restart policies the create calls of a trace carry.\<close>

definition restartPolicies :: "call list \<Rightarrow> string list" where
  "restartPolicies cs = map (\<lambda>(cfg, hc, name). Name (hc_RestartPolicy hc)) (createdWith cs)"

text \<open>The line a failed cleanup step prints, if it failed.\<close>

fun warning :: "golib \<Rightarrow> string \<Rightarrow> error option \<Rightarrow> string list" where
  "warning L tag None = []"
| "warning L tag (Some e) = [tag @ Error L e]"

text \<open>The binding a port map is given for one request entry.\<close>

definition hostBinding :: "DockerPortBindingRequest \<Rightarrow> PortBinding list" where
  "hostBinding port = [\<lparr>HostIP = ''0.0.0.0'', HostPort = Host port\<rparr>]"

text \<open>Two host ports asked for the same container port.\<close>

definition twoHostPorts :: "DockerPortBindingRequest list" where
  "twoHostPorts =
     [\<lparr>Container = ''80/tcp'', Host = ''8080''\<rparr>, \<lparr>Container = ''80/tcp'', Host = ''9090''\<rparr>]"

lemmas go_string_defs =
  HasPrefix_def ToUpper_def isASCII_def byte_def upperByte_def sliceFrom_def sliceTo_def
  char_of_def bit_Suc_0_iff

lemmas parse_defs =
  ParseInt_def ParseUint_def digitOf_def lowerByte_def maxUint64_def mul64_def wrap64_def

lemmas convert_defs =
  convertToBytes_def parseNumber_def units_def

lemmas deploy_defs =
  startContainer_def startContainer_part000_def provision_def resourceLimits_def
  cleanup_def createAndStart_def engineCall_def Println_def registryAuth_def
  containerConfig_def containerConfig_part000_def addMounts_def addPortBindings_def
  addExposedPorts_def portMap_def portSet_def zeroHostConfig_def zeroResources_def
  privateDockerRegistry_def

lemmas demo_defs =
  asciiLib_def replacementLib_def okEngine_def stuckEngine_def noCredsEngine_def
  nameTakenEngine_def noConfigEngine_def world0_def svc1_def svc1_part000_def decoded_def
  twoHostPorts_def

lemmas run_defs =
  deploy_defs demo_defs go_string_defs parse_defs convert_defs newCalls_def
  startCalls_def restartAlways_def hostConfigOf_def hostConfig_part000_def
  pulled_def cleaned_def cleaned_part000_def started_def failed_def
  createResult_def createResult_part000_def

section \<open>Memory strings\<close>

lemma units_length: "units u = Some m \<Longrightarrow> length u = 2"
  by (auto simp: units_def split: if_splits)

lemma units_values:
  "units ''KB'' = Some (1024 ^ 1)" "units ''MB'' = Some (1024 ^ 2)"
  "units ''GB'' = Some (1024 ^ 3)" "units ''TB'' = Some (1024 ^ 4)"
  by (simp_all add: units_def)

lemma dom_units: "dom units = {''KB'', ''MB'', ''GB'', ''TB''}"
  by (auto simp: units_def split: if_splits)

lemma wrap64_in_range: "- (2 ^ 63) \<le> x \<Longrightarrow> x < 2 ^ 63 \<Longrightarrow> wrap64 x = x"
  by (simp add: wrap64_def)

lemma sliceFrom_append:
  "length u = 2 \<Longrightarrow> sliceFrom (n @ u) (int (length (n @ u)) - 2) = Returns u"
  by (simp add: sliceFrom_def)

lemma sliceTo_append:
  "sliceTo (n @ u) (int (length (n @ u)) - int (length u)) = Returns n"
  by (simp add: sliceTo_def)

text \<open>
  With a two-letter unit at the end of the upper-cased string, the result is decided by
  \<open>ParseInt\<close> on what precedes the unit.
\<close>

lemma convertToBytes_suffix:
  assumes "ToUpper L val = numStr @ unit" and "units unit = Some mult"
  shows "convertToBytes L val =
           (case ParseInt numStr of Inl err \<Rightarrow> Returns (Inl err)
            | Inr num \<Rightarrow> Returns (Inr (mul64 num mult)))"
proof -
  have len: "length unit = 2" using assms(2) by (rule units_length)
  show ?thesis
    unfolding convertToBytes_def Let_def assms(1)
    by (simp only: sliceFrom_append [OF len] go.case assms(2) option.case parseNumber_def
        sliceTo_append)
qed

text \<open>
  The units table has keys of two letters only, so the one-letter unit tried at line 60 is
  never found: whenever the last two bytes are not a unit, the result is the error
  \<open>Invalid unit\<close> with the last byte.
\<close>

lemma single_letter_fallback_never_parses:
  assumes "2 \<le> length (ToUpper L val)"
    and "units (drop (length (ToUpper L val) - 2) (ToUpper L val)) = None"
  shows "convertToBytes L val =
           Returns (Inl (ErrorString
             (''Invalid unit: '' @ drop (length (ToUpper L val) - 1) (ToUpper L val))))"
proof -
  define v where "v = ToUpper L val"
  have one: "units (drop (length v - 1) v) = None"
  proof (cases "units (drop (length v - 1) v)")
    case (Some m)
    then have "length (drop (length v - 1) v) = 2" by (rule units_length)
    then show ?thesis by simp
  qed simp
  have ne: "v \<noteq> []" using assms(1) by (auto simp: v_def)
  have n2: "nat (int (length v) - 2) = length v - 2" by simp
  have n1: "nat (int (length v) - 1) = length v - 1" by simp
  show ?thesis
    using assms one ne unfolding v_def [symmetric] convertToBytes_def Let_def
    by (simp add: sliceFrom_def n2 n1 v_def [symmetric])
qed

lemma ToUpper_ascii_length: "isASCII val \<Longrightarrow> length (ToUpper L val) = length val"
  by (simp add: ToUpper_def)

text \<open>The only panic of \<open>convertToBytes\<close> is the slice of line 58.\<close>

lemma convertToBytes_panics_iff:
  "convertToBytes L val = Panics SliceBoundsOutOfRange \<longleftrightarrow> length (ToUpper L val) < 2"
  by (auto simp: convertToBytes_def Let_def sliceFrom_def sliceTo_def parseNumber_def
      split: go.splits option.splits sum.splits if_splits)

text \<open>
  C3, as amended. When the upper-cased memory string is a number followed by one of the
  units KB, MB, GB, TB, and the number is a base-10 \<^verbatim>\<open>int64\<close>, \<open>convertToBytes\<close>
  returns the number times the unit's multiplier as Go multiplies in \<^verbatim>\<open>int64\<close>: the
  exact product whenever that fits 64 bits, the product wrapped around otherwise; the multipliers are the first four powers of 1024;
  \<open>512MB\<close> gives 512 times the square of 1024 and \<open>2GB\<close> gives 2 times its cube.
\<close>

theorem convertToBytes_unit_multiplier:
  "(ToUpper L val = numStr @ unit \<and> units unit = Some mult \<and> ParseInt numStr = Inr num \<longrightarrow>
      convertToBytes L val = Returns (Inr (mul64 num mult)) \<and>
      (- (2 ^ 63) \<le> num * mult \<and> num * mult < 2 ^ 63 \<longrightarrow>
         convertToBytes L val = Returns (Inr (num * mult))))
   \<and> units ''KB'' = Some (1024 ^ 1) \<and> units ''MB'' = Some (1024 ^ 2)
   \<and> units ''GB'' = Some (1024 ^ 3) \<and> units ''TB'' = Some (1024 ^ 4)
   \<and> dom units = {''KB'', ''MB'', ''GB'', ''TB''}
   \<and> convertToBytes L ''512MB'' = Returns (Inr (512 * 1024 ^ 2))
   \<and> convertToBytes L ''2GB'' = Returns (Inr (2 * 1024 ^ 3))"
proof -
  have a: "convertToBytes L ''512MB'' = Returns (Inr (512 * 1024 ^ 2))"
    by (simp add: convert_defs go_string_defs parse_defs)
  have b: "convertToBytes L ''2GB'' = Returns (Inr (2 * 1024 ^ 3))"
    by (simp add: convert_defs go_string_defs parse_defs)
  have c: "convertToBytes L val = Returns (Inr (mul64 num mult))"
    if "ToUpper L val = numStr @ unit" "units unit = Some mult" "ParseInt numStr = Inr num"
    using convertToBytes_suffix [OF that(1,2)] that(3) by simp
  show ?thesis
    using a b c units_values dom_units by (auto simp: mul64_def wrap64_in_range)
qed

theorem convertToBytes_unit_multiplier_witness:
  "ToUpper asciiLib ''512mb'' = ''512'' @ ''MB'' \<and> units ''MB'' = Some 1048576
   \<and> ParseInt ''512'' = Inr 512
   \<and> convertToBytes asciiLib ''512mb'' = Returns (Inr 536870912)"
proof -
  have h: "ToUpper asciiLib ''512mb'' = ''512'' @ ''MB'' \<and> units ''MB'' = Some 1048576
      \<and> ParseInt ''512'' = Inr 512"
    by (simp add: go_string_defs units_def parse_defs)
  from h convertToBytes_unit_multiplier [of asciiLib "''512mb''" "''512''" "''MB''" 1048576 512]
  show ?thesis by (simp add: mul64_def wrap64_def)
qed

text \<open>
  The claim as stated, with the plain product, fails when the product does not fit 64 bits:
  \<open>8388608TB\<close> is 2 to the power 23 times 2 to the power 40, and the result is the
  least \<^verbatim>\<open>int64\<close>, a negative number.
\<close>

theorem convertToBytes_overflow_counterexample:
  "ParseInt ''8388608'' = Inr 8388608 \<and> units ''TB'' = Some (1024 ^ 4)
   \<and> convertToBytes asciiLib ''8388608TB'' = Returns (Inr (- 9223372036854775808))
   \<and> convertToBytes asciiLib ''8388608TB'' \<noteq> Returns (Inr (8388608 * 1024 ^ 4))"
  by (simp add: convert_defs go_string_defs parse_defs asciiLib_def)

text \<open>
  C4. The claim has \<open>10K\<close> parse through the one-letter fallback. The program tries the
  one-letter unit \<open>K\<close> after \<open>0K\<close> is not found, does not find it either, and returns
  the error \<open>Invalid unit: K\<close>.
\<close>

theorem single_letter_unit_rejected:
  "convertToBytes L ''10K'' = Returns (Inl (ErrorString ''Invalid unit: K''))"
  by (simp add: convert_defs go_string_defs)

text \<open>
  C10, as amended. \<open>convertToBytes\<close> panics exactly when the upper-cased string has
  fewer than two bytes, since line 58 slices its last two bytes unconditionally. So it
  panics, returning no parse error, on every one-byte memory string that is ASCII (as every
  one-byte string of valid UTF-8 is; upper-casing keeps the length of an ASCII string); and
  as the memory step runs whenever the memory field is not empty, the deploy steps from
  line 115 on panic with it.
\<close>

theorem convertToBytes_one_byte_panics:
  "(length val = 1 \<and> isASCII val \<longrightarrow>
      convertToBytes L val = Panics SliceBoundsOutOfRange \<and>
      (Memory request = val \<longrightarrow> fst (provision L D request w) = Panics SliceBoundsOutOfRange))
   \<and> (convertToBytes L val = Panics SliceBoundsOutOfRange \<longleftrightarrow> length (ToUpper L val) < 2)"
proof -
  have p: "convertToBytes L val = Panics SliceBoundsOutOfRange" if "length val = 1" "isASCII val"
    using that by (simp add: convertToBytes_panics_iff ToUpper_ascii_length)
  have q: "fst (provision L D request w) = Panics SliceBoundsOutOfRange"
    if "length val = 1" "isASCII val" "Memory request = val"
  proof -
    have "Memory request \<noteq> []" using that by auto
    then show ?thesis
      using p [OF that(1,2)] that(3) by (simp add: provision_def resourceLimits_def)
  qed
  show ?thesis using p q convertToBytes_panics_iff by blast
qed

theorem convertToBytes_one_byte_panics_witness:
  "length ''5'' = 1 \<and> isASCII ''5''
   \<and> convertToBytes asciiLib ''5'' = Panics SliceBoundsOutOfRange
   \<and> fst (provision asciiLib okEngine (svc1\<lparr>Memory := ''5''\<rparr>) world0) = Panics SliceBoundsOutOfRange"
proof -
  have h: "length ''5'' = 1 \<and> isASCII ''5''"
    by (simp add: isASCII_def byte_def)
  have m: "Memory (svc1\<lparr>Memory := ''5''\<rparr>) = ''5''"
    by simp
  from h m convertToBytes_one_byte_panics
    [of "''5''" asciiLib "svc1\<lparr>Memory := ''5''\<rparr>" okEngine world0]
  show ?thesis by blast
qed

text \<open>
  The claim as stated, for every string of one byte, fails on a byte that is not ASCII: the
  one-byte string \<open>0xFF\<close> is upper-cased to three bytes, the slice of line 58 is in
  range, and \<open>convertToBytes\<close> returns the error \<open>Invalid unit\<close> with the last
  of them.
\<close>

theorem non_ascii_byte_counterexample:
  "length [CHR 0xFF] = 1
   \<and> ToUpper replacementLib [CHR 0xFF] = [CHR 0xEF, CHR 0xBF, CHR 0xBD]
   \<and> convertToBytes replacementLib [CHR 0xFF] =
       Returns (Inl (ErrorString (''Invalid unit: '' @ [CHR 0xBD])))"
  by (simp add: convert_defs go_string_defs replacementLib_def asciiLib_def)

section \<open>The image check\<close>

text \<open>
  C1. A request whose image does not start with \<open>d.puneet.cc\<close> makes \<open>startContainer\<close>
  return the error \<open>only d.puneet.cc images supported\<close> and leaves the world as it
  was: no engine call has been made. This holds in both programs.
\<close>

theorem foreign_image_rejected_before_engine:
  "(\<not> HasPrefix (Image request) ''d.puneet.cc'' \<longrightarrow>
      startContainer L D request w =
        (Returns (Some (ErrorString ''only d.puneet.cc images supported'')), w))
   \<and> (\<not> HasPrefix (Image_p request_p) ''d.puneet.cc'' \<longrightarrow>
      startContainer_part000 L D request_p w =
        (Returns (Some (ErrorString ''only d.puneet.cc images supported'')), w))"
  by (simp add: startContainer_def startContainer_part000_def privateDockerRegistry_def)

theorem foreign_image_rejected_before_engine_witness:
  "\<not> HasPrefix ''docker.io/app:latest'' ''d.puneet.cc''
   \<and> startContainer asciiLib okEngine (svc1\<lparr>Image := ''docker.io/app:latest''\<rparr>) world0 =
       (Returns (Some (ErrorString ''only d.puneet.cc images supported'')), world0)
   \<and> startContainer_part000 asciiLib okEngine (svc1_part000\<lparr>Image_p := ''docker.io/app:latest''\<rparr>) world0 =
       (Returns (Some (ErrorString ''only d.puneet.cc images supported'')), world0)
   \<and> calls world0 = []"
proof -
  have h: "\<not> HasPrefix ''docker.io/app:latest'' ''d.puneet.cc''"
    by (simp add: HasPrefix_def)
  from h foreign_image_rejected_before_engine
    [of "svc1\<lparr>Image := ''docker.io/app:latest''\<rparr>" asciiLib okEngine world0
        "svc1_part000\<lparr>Image_p := ''docker.io/app:latest''\<rparr>"]
  show ?thesis by (simp add: world0_def)
qed

section \<open>Runs of startContainer\<close>

lemma engineCall_eq:
  "engineCall c f w = (fst (f (ext w)), w\<lparr>ext := snd (f (ext w)), calls := calls w @ [c]\<rparr>)"
  by (simp add: engineCall_def split: prod.split)

lemma cleanup_existing:
  assumes "ContainerInspect D name (ext w) = (None, e2)"
    and "ContainerStop D name e2 = (rs, e3)"
    and "ContainerRemove D name e3 = (rr, e4)"
  shows "cleanup L D name w =
           w\<lparr>ext := e4,
             calls := calls w @ [CallContainerInspect name, CallContainerStop name, CallContainerRemove name],
             stdout := stdout w @ warning L ''[startContainer][ContainerStop][ERROR] : '' rs
                         @ warning L ''[startContainer][ContainerRemove][ERROR] : '' rr\<rparr>"
  using assms by (cases rs; cases rr) (simp_all add: cleanup_def engineCall_eq Println_def)

lemma cleanup_absent:
  assumes "ContainerInspect D name (ext w) = (Some e, e2)"
  shows "cleanup L D name w = w\<lparr>ext := e2, calls := calls w @ [CallContainerInspect name]\<rparr>"
  using assms by (simp add: cleanup_def engineCall_eq)

lemma createdWith_append: "createdWith (xs @ ys) = createdWith xs @ createdWith ys"
  by (induction xs rule: createdWith.induct) simp_all

lemma cleanup_calls:
  "\<exists>cs. calls (cleanup L D name w) = calls w @ cs \<and> createdWith cs = []"
proof (cases "fst (ContainerInspect D name (ext w))")
  case None
  obtain e2 where i: "ContainerInspect D name (ext w) = (None, e2)"
    using None by (cases "ContainerInspect D name (ext w)") auto
  obtain rs e3 where s: "ContainerStop D name e2 = (rs, e3)" by force
  obtain rr e4 where r: "ContainerRemove D name e3 = (rr, e4)" by force
  show ?thesis by (simp add: cleanup_existing [OF i s r])
next
  case (Some e)
  then obtain e2 where i: "ContainerInspect D name (ext w) = (Some e, e2)"
    by (cases "ContainerInspect D name (ext w)") auto
  show ?thesis by (simp add: cleanup_absent [OF i])
qed

lemma resourceLimits_frame:
  "calls (snd (resourceLimits L request hc w)) = calls w
   \<and> ext (snd (resourceLimits L request hc w)) = ext w"
  by (auto simp: resourceLimits_def Println_def Let_def split: go.splits sum.splits)

lemma resourceLimits_fst:
  "fst (resourceLimits L request hc w) = fst (resourceLimits L request hc w')"
  by (auto simp: resourceLimits_def Println_def Let_def split: go.splits sum.splits)


lemma createAndStart_calls:
  "calls (snd (createAndStart L D cfg hc name w)) =
     calls w @ CallContainerCreate cfg hc name # startCalls D cfg hc name (ext w)"
  by (auto simp: createAndStart_def engineCall_eq Println_def startCalls_def Let_def split: prod.splits sum.splits)


lemma createdWith_startCalls: "createdWith (startCalls D cfg hc name e) = []"
  by (simp add: startCalls_def split: sum.split)

lemma provision_ok:
  assumes "fst (resourceLimits L request restartAlways w) = Returns (Inr hc)"
  shows "calls (snd (provision L D request w)) =
           calls w @ CallContainerCreate (containerConfig request) (hostConfigOf request hc)
                       (ContainerName request)
             # startCalls D (containerConfig request) (hostConfigOf request hc)
                 (ContainerName request) (ext w)"
proof -
  obtain w1 where r: "resourceLimits L request restartAlways w = (Returns (Inr hc), w1)"
    using assms by (cases "resourceLimits L request restartAlways w") auto
  have f: "calls w1 = calls w" "ext w1 = ext w"
    using resourceLimits_frame [of L request restartAlways w] r by simp_all
  show ?thesis
    using r f createAndStart_calls [of L D "containerConfig request" "hostConfigOf request hc"
        "ContainerName request" w1]
    by (auto simp: provision_def restartAlways_def [symmetric] hostConfigOf_def [symmetric]
        split: prod.split)
qed

lemma provision_error:
  assumes "fst (resourceLimits L request restartAlways w) = Returns (Inl err)"
  shows "fst (provision L D request w) = Returns (Some err)
         \<and> calls (snd (provision L D request w)) = calls w
         \<and> ext (snd (provision L D request w)) = ext w"
proof -
  obtain w1 where r: "resourceLimits L request restartAlways w = (Returns (Inl err), w1)"
    using assms by (cases "resourceLimits L request restartAlways w") auto
  have f: "calls w1 = calls w" "ext w1 = ext w"
    using resourceLimits_frame [of L request restartAlways w] r by simp_all
  show ?thesis
    using r f by (simp add: provision_def restartAlways_def [symmetric])
qed

lemma provision_panic:
  assumes "fst (resourceLimits L request restartAlways w) = Panics p"
  shows "fst (provision L D request w) = Panics p
         \<and> calls (snd (provision L D request w)) = calls w"
proof -
  obtain w1 where r: "resourceLimits L request restartAlways w = (Panics p, w1)"
    using assms by (cases "resourceLimits L request restartAlways w") auto
  have f: "calls w1 = calls w" "ext w1 = ext w"
    using resourceLimits_frame [of L request restartAlways w] r by simp_all
  show ?thesis
    using r f by (simp add: provision_def restartAlways_def [symmetric])
qed

lemma startContainer_reach:
  assumes "HasPrefix (Image request) ''d.puneet.cc''"
    and "Load D (ext w) = Inr cfg"
    and "ImagePull D (Image request) (registryAuth D cfg) (ext w) = (None, e1)"
  shows "startContainer L D request w =
           provision L D request
             (cleanup L D (ContainerName request)
                (w\<lparr>ext := e1, calls := calls w @ [CallImagePull (Image request) (registryAuth D cfg)]\<rparr>))"
  using assms by (simp add: startContainer_def privateDockerRegistry_def engineCall_eq)

lemma startContainer_part000_reach:
  assumes "HasPrefix (Image_p request) ''d.puneet.cc''"
    and "ImagePull D (Image_p request) [] (ext w) = (None, e1)"
  shows "startContainer_part000 L D request w =
           (let w2 = cleanup L D (ContainerName_p request)
                       (w\<lparr>ext := e1, calls := calls w @ [CallImagePull (Image_p request) []]\<rparr>);
                r = createAndStart L D (containerConfig_part000 request) (hostConfig_part000 request)
                      (ContainerName_p request) w2
            in (Returns (fst r), snd r))"
  using assms
  by (simp add: startContainer_part000_def engineCall_eq Let_def hostConfig_part000_def
      split: prod.split)

lemma cleanup_nonfatal_main:
  fixes L :: golib
  assumes reach: "HasPrefix (Image request) ''d.puneet.cc''" "Load D (ext w) = Inr cfg"
      "ImagePull D (Image request) (registryAuth D cfg) (ext w) = (None, e1)"
    and exists: "ContainerInspect D (ContainerName request) e1 = (None, e2)"
    and stop: "ContainerStop D (ContainerName request) e2 = (rs, e3)"
    and remove: "ContainerRemove D (ContainerName request) e3 = (rr, e4)"
  defines "w4 \<equiv> w\<lparr>ext := e4,
      calls := calls w @ [CallImagePull (Image request) (registryAuth D cfg),
                 CallContainerInspect (ContainerName request),
                 CallContainerStop (ContainerName request),
                 CallContainerRemove (ContainerName request)],
      stdout := stdout w @ warning L ''[startContainer][ContainerStop][ERROR] : '' rs
                  @ warning L ''[startContainer][ContainerRemove][ERROR] : '' rr\<rparr>"
  shows "startContainer L D request w = provision L D request w4"
    and "fst (resourceLimits L request restartAlways w) = Returns (Inr hc) \<Longrightarrow>
         newCalls w (snd (startContainer L D request w)) =
           [CallImagePull (Image request) (registryAuth D cfg),
            CallContainerInspect (ContainerName request),
            CallContainerStop (ContainerName request),
            CallContainerRemove (ContainerName request),
            CallContainerCreate (containerConfig request) (hostConfigOf request hc) (ContainerName request)]
           @ startCalls D (containerConfig request) (hostConfigOf request hc) (ContainerName request) e4"
    and "fst (resourceLimits L request restartAlways w) = Returns (Inl err) \<Longrightarrow>
         fst (startContainer L D request w) = Returns (Some err) \<and>
         newCalls w (snd (startContainer L D request w)) =
           [CallImagePull (Image request) (registryAuth D cfg),
            CallContainerInspect (ContainerName request),
            CallContainerStop (ContainerName request),
            CallContainerRemove (ContainerName request)]"
proof -
  let ?w1 = "w\<lparr>ext := e1, calls := calls w @ [CallImagePull (Image request) (registryAuth D cfg)]\<rparr>"
  have c: "cleanup L D (ContainerName request) ?w1 = w4"
    using cleanup_existing [of D "ContainerName request" ?w1 e2 rs e3 rr e4 L] exists stop remove
    by (simp add: w4_def)
  show eq: "startContainer L D request w = provision L D request w4"
    using startContainer_reach [OF reach] c by simp
  have r4: "fst (resourceLimits L request restartAlways w4) = fst (resourceLimits L request restartAlways w)"
    by (rule resourceLimits_fst)
  {
    assume h: "fst (resourceLimits L request restartAlways w) = Returns (Inr hc)"
    from provision_ok [of L request w4 hc D] h r4
    show "newCalls w (snd (startContainer L D request w)) =
           [CallImagePull (Image request) (registryAuth D cfg),
            CallContainerInspect (ContainerName request),
            CallContainerStop (ContainerName request),
            CallContainerRemove (ContainerName request),
            CallContainerCreate (containerConfig request) (hostConfigOf request hc) (ContainerName request)]
           @ startCalls D (containerConfig request) (hostConfigOf request hc) (ContainerName request) e4"
      by (simp add: eq newCalls_def w4_def)
  }
  {
    assume h: "fst (resourceLimits L request restartAlways w) = Returns (Inl err)"
    from provision_error [of L request w4 err D] h r4
    show "fst (startContainer L D request w) = Returns (Some err) \<and>
         newCalls w (snd (startContainer L D request w)) =
           [CallImagePull (Image request) (registryAuth D cfg),
            CallContainerInspect (ContainerName request),
            CallContainerStop (ContainerName request),
            CallContainerRemove (ContainerName request)]"
      by (simp add: eq newCalls_def w4_def)
  }
qed

lemma cleanup_nonfatal_part000:
  assumes reach: "HasPrefix (Image_p request) ''d.puneet.cc''"
      "ImagePull D (Image_p request) [] (ext w) = (None, e1)"
    and exists: "ContainerInspect D (ContainerName_p request) e1 = (None, e2)"
    and stop: "ContainerStop D (ContainerName_p request) e2 = (rs, e3)"
    and remove: "ContainerRemove D (ContainerName_p request) e3 = (rr, e4)"
  shows "newCalls w (snd (startContainer_part000 L D request w)) =
           [CallImagePull (Image_p request) [],
            CallContainerInspect (ContainerName_p request),
            CallContainerStop (ContainerName_p request),
            CallContainerRemove (ContainerName_p request),
            CallContainerCreate (containerConfig_part000 request) (hostConfig_part000 request)
              (ContainerName_p request)]
           @ startCalls D (containerConfig_part000 request) (hostConfig_part000 request)
               (ContainerName_p request) e4"
    and "take (length (warning L ''[startContainer][ContainerStop][ERROR] : '' rs
                  @ warning L ''[startContainer][ContainerRemove][ERROR] : '' rr))
           (drop (length (stdout w)) (stdout (snd (startContainer_part000 L D request w)))) =
         warning L ''[startContainer][ContainerStop][ERROR] : '' rs
           @ warning L ''[startContainer][ContainerRemove][ERROR] : '' rr"
proof -
  let ?w1 = "w\<lparr>ext := e1, calls := calls w @ [CallImagePull (Image_p request) []]\<rparr>"
  let ?w4 = "w\<lparr>ext := e4,
      calls := calls w @ [CallImagePull (Image_p request) [],
                 CallContainerInspect (ContainerName_p request),
                 CallContainerStop (ContainerName_p request),
                 CallContainerRemove (ContainerName_p request)],
      stdout := stdout w @ warning L ''[startContainer][ContainerStop][ERROR] : '' rs
                  @ warning L ''[startContainer][ContainerRemove][ERROR] : '' rr\<rparr>"
  have c: "cleanup L D (ContainerName_p request) ?w1 = ?w4"
    using cleanup_existing [of D "ContainerName_p request" ?w1 e2 rs e3 rr e4 L] exists stop remove
    by simp
  have eq: "snd (startContainer_part000 L D request w) =
      snd (createAndStart L D (containerConfig_part000 request) (hostConfig_part000 request)
                      (ContainerName_p request) ?w4)"
    using startContainer_part000_reach [OF reach, of L] c by (simp add: Let_def)
  show "newCalls w (snd (startContainer_part000 L D request w)) =
           [CallImagePull (Image_p request) [],
            CallContainerInspect (ContainerName_p request),
            CallContainerStop (ContainerName_p request),
            CallContainerRemove (ContainerName_p request),
            CallContainerCreate (containerConfig_part000 request) (hostConfig_part000 request)
              (ContainerName_p request)]
           @ startCalls D (containerConfig_part000 request) (hostConfig_part000 request)
               (ContainerName_p request) e4"
    by (simp add: eq createAndStart_calls newCalls_def)
  show "take (length (warning L ''[startContainer][ContainerStop][ERROR] : '' rs
                  @ warning L ''[startContainer][ContainerRemove][ERROR] : '' rr))
           (drop (length (stdout w)) (stdout (snd (startContainer_part000 L D request w)))) =
         warning L ''[startContainer][ContainerStop][ERROR] : '' rs
           @ warning L ''[startContainer][ContainerRemove][ERROR] : '' rr"
    by (auto simp: eq createAndStart_def engineCall_eq Println_def Let_def split: prod.splits sum.splits)
qed

lemma newCalls_self: "newCalls w w = []"
  by (simp add: newCalls_def)

lemma newCalls_append: "calls w' = calls w @ cs \<Longrightarrow> newCalls w w' = cs"
  by (simp add: newCalls_def)

lemma provision_created:
  assumes "calls w' = calls w @ pre" and "createdWith pre = []"
  shows "\<exists>cs. newCalls w (snd (provision L D request w')) = pre @ cs \<and>
           (cs = [] \<or>
            (\<exists>hc. fst (resourceLimits L request restartAlways w) = Returns (Inr hc) \<and>
                  cs = CallContainerCreate (containerConfig request) (hostConfigOf request hc)
                         (ContainerName request)
                       # startCalls D (containerConfig request) (hostConfigOf request hc)
                           (ContainerName request) (ext w')))"
proof (cases "fst (resourceLimits L request restartAlways w)")
  case (Panics p)
  then have "fst (resourceLimits L request restartAlways w') = Panics p"
    using resourceLimits_fst [of L request restartAlways w' w] by simp
  from provision_panic [OF this, of D] assms show ?thesis
    by (simp add: newCalls_def)
next
  case (Returns r)
  show ?thesis
  proof (cases r)
    case (Inl err)
    then have "fst (resourceLimits L request restartAlways w') = Returns (Inl err)"
      using Returns resourceLimits_fst [of L request restartAlways w' w] by simp
    from provision_error [OF this, of D] assms show ?thesis
      by (simp add: newCalls_def)
  next
    case (Inr hc)
    then have "fst (resourceLimits L request restartAlways w') = Returns (Inr hc)"
      using Returns resourceLimits_fst [of L request restartAlways w' w] by simp
    from provision_ok [OF this, of D] assms Returns Inr show ?thesis
      by (simp add: newCalls_def)
  qed
qed

lemma startContainer_trace:
  "newCalls w (snd (startContainer L D request w)) = [] \<or>
   (\<exists>cfg pre cs. Load D (ext w) = Inr cfg \<and>
      newCalls w (snd (startContainer L D request w)) =
        CallImagePull (Image request) (registryAuth D cfg) # pre @ cs \<and>
      createdWith pre = [] \<and>
      (cs = [] \<or>
       (\<exists>hc e. fst (resourceLimits L request restartAlways w) = Returns (Inr hc) \<and>
          cs = CallContainerCreate (containerConfig request) (hostConfigOf request hc)
                 (ContainerName request)
               # startCalls D (containerConfig request) (hostConfigOf request hc)
                   (ContainerName request) e)))"
proof (cases "HasPrefix (Image request) ''d.puneet.cc''")
  case False
  then show ?thesis by (simp add: startContainer_def privateDockerRegistry_def newCalls_def)
next
  case pre: True
  show ?thesis
  proof (cases "Load D (ext w)")
    case (Inl err)
    then show ?thesis using pre by (simp add: startContainer_def privateDockerRegistry_def newCalls_def)
  next
    case (Inr cfg)
    obtain r e1 where pull: "ImagePull D (Image request) (registryAuth D cfg) (ext w) = (r, e1)"
      by force
    let ?p = "CallImagePull (Image request) (registryAuth D cfg)"
    let ?w1 = "w\<lparr>ext := e1, calls := calls w @ [?p]\<rparr>"
    show ?thesis
    proof (cases r)
      case (Some e)
      have "newCalls w (snd (startContainer L D request w)) = ?p # [] @ []"
        using pre Inr pull Some
        by (simp add: startContainer_def privateDockerRegistry_def engineCall_eq newCalls_def)
      then show ?thesis using Inr by fastforce
    next
      case None
      have eq: "startContainer L D request w =
                  provision L D request (cleanup L D (ContainerName request) ?w1)"
        using startContainer_reach [OF pre Inr] pull None by simp
      obtain cl where cl: "calls (cleanup L D (ContainerName request) ?w1) = calls ?w1 @ cl"
          "createdWith cl = []"
        using cleanup_calls by blast
      have c1: "calls (cleanup L D (ContainerName request) ?w1) = calls w @ (?p # cl)"
        using cl(1) by simp
      have c2: "createdWith (?p # cl) = []" using cl(2) by simp
      from provision_created [OF c1 c2, of L D request]
      obtain cs where cs: "newCalls w (snd (startContainer L D request w)) = (?p # cl) @ cs"
        "cs = [] \<or>
            (\<exists>hc. fst (resourceLimits L request restartAlways w) = Returns (Inr hc) \<and>
                  cs = CallContainerCreate (containerConfig request) (hostConfigOf request hc)
                         (ContainerName request)
                       # startCalls D (containerConfig request) (hostConfigOf request hc)
                           (ContainerName request) (ext (cleanup L D (ContainerName request) ?w1)))"
        unfolding eq by blast
      show ?thesis
        using Inr cs cl(2) by (intro disjI2 exI [of _ cfg] exI [of _ cl] exI [of _ cs]) auto
    qed
  qed
qed

lemma startContainer_created:
  assumes "(cfg, hc, name) \<in> set (createdWith (newCalls w (snd (startContainer L D request w))))"
  shows "\<exists>hc0. fst (resourceLimits L request restartAlways w) = Returns (Inr hc0) \<and>
           cfg = containerConfig request \<and> hc = hostConfigOf request hc0 \<and>
           name = ContainerName request"
  using startContainer_trace [of w L D request] assms
  by (auto simp: createdWith_append createdWith_startCalls)

lemma startContainer_part000_trace:
  "newCalls w (snd (startContainer_part000 L D request w)) = [] \<or>
   (\<exists>pre cs.
      newCalls w (snd (startContainer_part000 L D request w)) =
        CallImagePull (Image_p request) [] # pre @ cs \<and>
      createdWith pre = [] \<and>
      (cs = [] \<or>
       (\<exists>e. cs = CallContainerCreate (containerConfig_part000 request) (hostConfig_part000 request)
                 (ContainerName_p request)
               # startCalls D (containerConfig_part000 request) (hostConfig_part000 request)
                   (ContainerName_p request) e)))"
proof (cases "HasPrefix (Image_p request) ''d.puneet.cc''")
  case False
  then show ?thesis by (simp add: startContainer_part000_def newCalls_def)
next
  case pre: True
  obtain r e1 where pull: "ImagePull D (Image_p request) [] (ext w) = (r, e1)"
    by force
  let ?p = "CallImagePull (Image_p request) []"
  let ?w1 = "w\<lparr>ext := e1, calls := calls w @ [?p]\<rparr>"
  show ?thesis
  proof (cases r)
    case (Some e)
    have "newCalls w (snd (startContainer_part000 L D request w)) = ?p # [] @ []"
      using pre pull Some
      by (simp add: startContainer_part000_def engineCall_eq newCalls_def)
    then show ?thesis by fastforce
  next
    case None
    let ?w2 = "cleanup L D (ContainerName_p request) ?w1"
    have eq: "snd (startContainer_part000 L D request w) =
                snd (createAndStart L D (containerConfig_part000 request) (hostConfig_part000 request)
                      (ContainerName_p request) ?w2)"
      using startContainer_part000_reach [OF pre, of D w e1 L] pull None by (simp add: Let_def)
    obtain cl where cl: "calls ?w2 = calls ?w1 @ cl" "createdWith cl = []"
      using cleanup_calls by blast
    have "newCalls w (snd (startContainer_part000 L D request w)) =
            ?p # cl @ (CallContainerCreate (containerConfig_part000 request) (hostConfig_part000 request)
                 (ContainerName_p request)
               # startCalls D (containerConfig_part000 request) (hostConfig_part000 request)
                   (ContainerName_p request) (ext ?w2))"
      using cl(1) by (simp add: eq createAndStart_calls newCalls_def)
    then show ?thesis using cl(2) by blast
  qed
qed

lemma startContainer_part000_created:
  assumes "(cfg, hc, name) \<in> set (createdWith (newCalls w (snd (startContainer_part000 L D request w))))"
  shows "cfg = containerConfig_part000 request \<and> hc = hostConfig_part000 request \<and>
           name = ContainerName_p request"
  using startContainer_part000_trace [of w L D request] assms
  by (auto simp: createdWith_append createdWith_startCalls)

section \<open>The configurations handed to the engine\<close>

lemma resourceLimits_keeps:
  assumes "fst (resourceLimits L request hc0 w) = Returns (Inr hc)"
  shows "hc_RestartPolicy hc = hc_RestartPolicy hc0 \<and> hc_Mounts hc = hc_Mounts hc0
         \<and> hc_PortBindings hc = hc_PortBindings hc0"
  using assms
  by (auto simp: resourceLimits_def Let_def split: if_splits go.splits sum.splits)

lemma foldl_mounts_keeps:
  "hc_RestartPolicy (foldl (\<lambda>h volume. h\<lparr>hc_Mounts := hc_Mounts h @ [f volume]\<rparr>) hc vols)
     = hc_RestartPolicy hc
   \<and> hc_PortBindings (foldl (\<lambda>h volume. h\<lparr>hc_Mounts := hc_Mounts h @ [f volume]\<rparr>) hc vols)
     = hc_PortBindings hc"
  by (induction vols arbitrary: hc) simp_all

lemma addMounts_keeps:
  "hc_RestartPolicy (addMounts vols hc) = hc_RestartPolicy hc
   \<and> hc_PortBindings (addMounts vols hc) = hc_PortBindings hc"
  by (simp add: addMounts_def foldl_mounts_keeps)

lemma addPortBindings_keeps:
  "hc_RestartPolicy (addPortBindings ports hc) = hc_RestartPolicy hc"
  by (simp add: addPortBindings_def)

lemma hostConfigOf_restart:
  assumes "fst (resourceLimits L request restartAlways w) = Returns (Inr hc)"
  shows "Name (hc_RestartPolicy (hostConfigOf request hc)) = ''always''"
  using resourceLimits_keeps [OF assms]
  by (simp add: hostConfigOf_def addPortBindings_keeps addMounts_keeps restartAlways_def)

lemma hostConfig_part000_restart:
  "Name (hc_RestartPolicy (hostConfig_part000 request)) = []"
  by (simp add: hostConfig_part000_def addPortBindings_keeps addMounts_keeps zeroHostConfig_def)

lemma portMap_snoc: "portMap (ports @ [p]) = (portMap ports)(Container p \<mapsto> hostBinding p)"
  by (simp add: portMap_def hostBinding_def)

lemma portMap_Nil: "portMap [] = Map.empty"
  by (simp add: portMap_def)

lemma portMap_find:
  "portMap ports c = map_option hostBinding (find (\<lambda>p. Container p = c) (rev ports))"
  by (induction ports rule: rev_induct) (simp_all add: portMap_Nil portMap_snoc)

lemma find_app: "find P (xs @ ys) = (case find P xs of None \<Rightarrow> find P ys | Some x \<Rightarrow> Some x)"
  by (induction xs) simp_all

lemma portMap_last:
  assumes "ports = before @ p # after" and "Container p \<notin> Container ` set after"
  shows "portMap ports (Container p) = Some (hostBinding p)"
proof -
  have "find (\<lambda>q. Container q = Container p) (rev after) = None"
    using assms(2) by (simp add: find_None_iff image_iff) metis
  then show ?thesis
    by (simp add: portMap_find assms(1) find_app)
qed

lemma portMap_distinct:
  assumes "distinct (map Container ports)" and "p \<in> set ports"
  shows "portMap ports (Container p) = Some (hostBinding p)"
proof -
  from assms(2) obtain before after where sp: "ports = before @ p # after"
    by (auto simp: in_set_conv_decomp)
  have "Container p \<notin> Container ` set after"
    using assms(1) sp by auto
  with sp show ?thesis by (rule portMap_last)
qed

lemma portMap_Some:
  assumes "portMap ports c = Some b"
  shows "\<exists>p \<in> set ports. Container p = c \<and> b = hostBinding p"
proof -
  from assms obtain p where "find (\<lambda>p. Container p = c) (rev ports) = Some p" "b = hostBinding p"
    by (auto simp: portMap_find)
  then show ?thesis by (auto simp: find_Some_iff) (metis nth_mem set_rev length_rev)
qed

lemma dom_portMap: "dom (portMap ports) = Container ` set ports"
proof -
  have "portMap ports c \<noteq> None \<longleftrightarrow> c \<in> Container ` set ports" for c
    by (auto simp: portMap_find find_None_iff)
  then show ?thesis by (auto simp: dom_def)
qed

lemma portSet_from: "foldl (\<lambda>ps port. insert (Container port) ps) S ports = S \<union> Container ` set ports"
  by (induction ports arbitrary: S) auto

lemma portSet_eq: "portSet ports = Container ` set ports"
  by (simp add: portSet_def portSet_from)

lemma hostConfigOf_ports:
  assumes "fst (resourceLimits L request restartAlways w) = Returns (Inr hc)"
  shows "hc_PortBindings (hostConfigOf request hc) = portMap (PortBindings request)"
  using resourceLimits_keeps [OF assms]
  by (cases "PortBindings request")
     (simp_all add: hostConfigOf_def addPortBindings_def addMounts_keeps restartAlways_def
        zeroHostConfig_def portMap_Nil)

lemma hostConfig_part000_ports:
  "hc_PortBindings (hostConfig_part000 request) = portMap (PortBindings_p request)"
  by (cases "PortBindings_p request")
     (simp_all add: hostConfig_part000_def addPortBindings_def addMounts_keeps
        zeroHostConfig_def portMap_Nil)

lemma containerConfig_exposed:
  "cfg_ExposedPorts (containerConfig request) = Container ` set (PortBindings request)"
  by (cases "PortBindings request")
     (simp_all add: containerConfig_def addExposedPorts_def portSet_eq Let_def)

lemma containerConfig_part000_exposed:
  "cfg_ExposedPorts (containerConfig_part000 request) = Container ` set (PortBindings_p request)"
  by (cases "PortBindings_p request")
     (simp_all add: containerConfig_part000_def addExposedPorts_def portSet_eq Let_def)

section \<open>Cleanup of an existing container\<close>

lemma provision_calls:
  "calls (snd (provision L D request w)) =
     calls w @
     (case fst (resourceLimits L request restartAlways w) of
        Returns (Inr hc) \<Rightarrow>
          CallContainerCreate (containerConfig request) (hostConfigOf request hc)
            (ContainerName request)
          # startCalls D (containerConfig request) (hostConfigOf request hc)
              (ContainerName request) (ext w)
      | _ \<Rightarrow> [])"
proof (cases "fst (resourceLimits L request restartAlways w)")
  case (Panics p)
  then show ?thesis using provision_panic [of L request w p D] by simp
next
  case (Returns r)
  then show ?thesis
    using provision_error [of L request w _ D] provision_ok [of L request w _ D]
    by (cases r) simp_all
qed

text \<open>
  C2. When the inspect call finds a container of the requested name, the stop call and
  then the remove call are made, and whatever the two return, a failure of either is only
  printed: the run does not end there but goes on with the steps that follow the cleanup,
  exactly as \<open>provision\<close> runs them from the world the cleanup leaves, and what follows
  the remove call in the trace does not depend on the results of the stop and remove
  calls. In part_000 the create call always follows. In main.go the create call follows
  when the resource limits of the request parse (they do when the memory and CPU-share
  strings are empty); that parse stands between the cleanup and the create call and can
  end the run by itself, whatever the cleanup did.
\<close>

theorem cleanup_failure_not_fatal:
  "(HasPrefix (Image request) ''d.puneet.cc'' \<and> Load D (ext w) = Inr cfg
      \<and> ImagePull D (Image request) (registryAuth D cfg) (ext w) = (None, e1)
      \<and> ContainerInspect D (ContainerName request) e1 = (None, e2)
      \<and> ContainerStop D (ContainerName request) e2 = (rs, e3)
      \<and> ContainerRemove D (ContainerName request) e3 = (rr, e4) \<longrightarrow>
    startContainer L D request w =
      provision L D request
        (w\<lparr>ext := e4,
           calls := calls w @ [CallImagePull (Image request) (registryAuth D cfg),
                      CallContainerInspect (ContainerName request),
                      CallContainerStop (ContainerName request),
                      CallContainerRemove (ContainerName request)],
           stdout := stdout w @ warning L ''[startContainer][ContainerStop][ERROR] : '' rs
                       @ warning L ''[startContainer][ContainerRemove][ERROR] : '' rr\<rparr>)
    \<and> newCalls w (snd (startContainer L D request w)) =
        [CallImagePull (Image request) (registryAuth D cfg),
         CallContainerInspect (ContainerName request),
         CallContainerStop (ContainerName request),
         CallContainerRemove (ContainerName request)]
        @ (case fst (resourceLimits L request restartAlways w) of
             Returns (Inr hc) \<Rightarrow>
               CallContainerCreate (containerConfig request) (hostConfigOf request hc)
                 (ContainerName request)
               # startCalls D (containerConfig request) (hostConfigOf request hc)
                   (ContainerName request) e4
           | _ \<Rightarrow> []))
   \<and> (HasPrefix (Image_p request_p) ''d.puneet.cc''
      \<and> ImagePull D (Image_p request_p) [] (ext w) = (None, e1)
      \<and> ContainerInspect D (ContainerName_p request_p) e1 = (None, e2)
      \<and> ContainerStop D (ContainerName_p request_p) e2 = (rs, e3)
      \<and> ContainerRemove D (ContainerName_p request_p) e3 = (rr, e4) \<longrightarrow>
    newCalls w (snd (startContainer_part000 L D request_p w)) =
      [CallImagePull (Image_p request_p) [],
       CallContainerInspect (ContainerName_p request_p),
       CallContainerStop (ContainerName_p request_p),
       CallContainerRemove (ContainerName_p request_p),
       CallContainerCreate (containerConfig_part000 request_p) (hostConfig_part000 request_p)
         (ContainerName_p request_p)]
      @ startCalls D (containerConfig_part000 request_p) (hostConfig_part000 request_p)
          (ContainerName_p request_p) e4
    \<and> take (length (warning L ''[startContainer][ContainerStop][ERROR] : '' rs
                    @ warning L ''[startContainer][ContainerRemove][ERROR] : '' rr))
          (drop (length (stdout w)) (stdout (snd (startContainer_part000 L D request_p w)))) =
        warning L ''[startContainer][ContainerStop][ERROR] : '' rs
          @ warning L ''[startContainer][ContainerRemove][ERROR] : '' rr)"
proof (intro conjI impI; (elim conjE)?)
  assume a: "HasPrefix (Image request) ''d.puneet.cc''" "Load D (ext w) = Inr cfg"
    "ImagePull D (Image request) (registryAuth D cfg) (ext w) = (None, e1)"
    "ContainerInspect D (ContainerName request) e1 = (None, e2)"
    "ContainerStop D (ContainerName request) e2 = (rs, e3)"
    "ContainerRemove D (ContainerName request) e3 = (rr, e4)"
  let ?w4 = "w\<lparr>ext := e4,
           calls := calls w @ [CallImagePull (Image request) (registryAuth D cfg),
                      CallContainerInspect (ContainerName request),
                      CallContainerStop (ContainerName request),
                      CallContainerRemove (ContainerName request)],
           stdout := stdout w @ warning L ''[startContainer][ContainerStop][ERROR] : '' rs
                       @ warning L ''[startContainer][ContainerRemove][ERROR] : '' rr\<rparr>"
  show eq: "startContainer L D request w = provision L D request ?w4"
    by (rule cleanup_nonfatal_main(1) [OF a])
  have r4: "fst (resourceLimits L request restartAlways ?w4) = fst (resourceLimits L request restartAlways w)"
    by (rule resourceLimits_fst)
  show "newCalls w (snd (startContainer L D request w)) =
        [CallImagePull (Image request) (registryAuth D cfg),
         CallContainerInspect (ContainerName request),
         CallContainerStop (ContainerName request),
         CallContainerRemove (ContainerName request)]
        @ (case fst (resourceLimits L request restartAlways w) of
             Returns (Inr hc) \<Rightarrow>
               CallContainerCreate (containerConfig request) (hostConfigOf request hc)
                 (ContainerName request)
               # startCalls D (containerConfig request) (hostConfigOf request hc)
                   (ContainerName request) e4
           | _ \<Rightarrow> [])"
    using provision_calls [of L D request ?w4]
    by (simp add: eq r4 newCalls_def split: go.split sum.split)
next
  assume a: "HasPrefix (Image_p request_p) ''d.puneet.cc''"
    "ImagePull D (Image_p request_p) [] (ext w) = (None, e1)"
    "ContainerInspect D (ContainerName_p request_p) e1 = (None, e2)"
    "ContainerStop D (ContainerName_p request_p) e2 = (rs, e3)"
    "ContainerRemove D (ContainerName_p request_p) e3 = (rr, e4)"
  note p = cleanup_nonfatal_part000 [OF a, of L]
  show "newCalls w (snd (startContainer_part000 L D request_p w)) =
      [CallImagePull (Image_p request_p) [],
       CallContainerInspect (ContainerName_p request_p),
       CallContainerStop (ContainerName_p request_p),
       CallContainerRemove (ContainerName_p request_p),
       CallContainerCreate (containerConfig_part000 request_p) (hostConfig_part000 request_p)
         (ContainerName_p request_p)]
      @ startCalls D (containerConfig_part000 request_p) (hostConfig_part000 request_p)
          (ContainerName_p request_p) e4"
    by (rule p(1))
  show "take (length (warning L ''[startContainer][ContainerStop][ERROR] : '' rs
                    @ warning L ''[startContainer][ContainerRemove][ERROR] : '' rr))
          (drop (length (stdout w)) (stdout (snd (startContainer_part000 L D request_p w)))) =
        warning L ''[startContainer][ContainerStop][ERROR] : '' rs
          @ warning L ''[startContainer][ContainerRemove][ERROR] : '' rr"
    by (rule p(2))
qed

theorem cleanup_failure_not_fatal_witness:
  "HasPrefix (Image svc1) ''d.puneet.cc''
   \<and> ContainerInspect stuckEngine ''svc1'' 1 = (None, 2)
   \<and> ContainerStop stuckEngine ''svc1'' 2 = (Some (ErrorString ''stop timed out''), 3)
   \<and> ContainerRemove stuckEngine ''svc1'' 3 = (Some (ErrorString ''removal in progress''), 4)
   \<and> newCalls world0 (snd (startContainer asciiLib stuckEngine svc1 world0)) =
       [CallImagePull ''d.puneet.cc/app:latest'' ''e30='',
        CallContainerInspect ''svc1'', CallContainerStop ''svc1'', CallContainerRemove ''svc1'',
        CallContainerCreate (containerConfig svc1) (hostConfigOf svc1 restartAlways) ''svc1'',
        CallContainerStart ''c0ffee'']
   \<and> newCalls world0 (snd (startContainer_part000 asciiLib stuckEngine svc1_part000 world0)) =
       [CallImagePull ''d.puneet.cc/app:latest'' [],
        CallContainerInspect ''svc1'', CallContainerStop ''svc1'', CallContainerRemove ''svc1'',
        CallContainerCreate (containerConfig_part000 svc1_part000) (hostConfig_part000 svc1_part000) ''svc1'',
        CallContainerStart ''c0ffee'']"
proof -
  have h1: "HasPrefix (Image svc1) ''d.puneet.cc'' \<and> Load stuckEngine (ext world0) = Inr ()
      \<and> ImagePull stuckEngine (Image svc1) (registryAuth stuckEngine ()) (ext world0) = (None, 1)
      \<and> ContainerInspect stuckEngine (ContainerName svc1) 1 = (None, 2)
      \<and> ContainerStop stuckEngine (ContainerName svc1) 2 = (Some (ErrorString ''stop timed out''), 3)
      \<and> ContainerRemove stuckEngine (ContainerName svc1) 3 = (Some (ErrorString ''removal in progress''), 4)"
    by (simp add: demo_defs HasPrefix_def)
  have h2: "HasPrefix (Image_p svc1_part000) ''d.puneet.cc''
      \<and> ImagePull stuckEngine (Image_p svc1_part000) [] (ext world0) = (None, 1)
      \<and> ContainerInspect stuckEngine (ContainerName_p svc1_part000) 1 = (None, 2)
      \<and> ContainerStop stuckEngine (ContainerName_p svc1_part000) 2 = (Some (ErrorString ''stop timed out''), 3)
      \<and> ContainerRemove stuckEngine (ContainerName_p svc1_part000) 3 = (Some (ErrorString ''removal in progress''), 4)"
    by (simp add: demo_defs HasPrefix_def)
  have h3: "fst (resourceLimits asciiLib svc1 restartAlways world0) = Returns (Inr restartAlways)"
    by (simp add: resourceLimits_def svc1_def)
  have n: "ContainerName svc1 = ''svc1'' \<and> ContainerName_p svc1_part000 = ''svc1''
     \<and> Image svc1 = ''d.puneet.cc/app:latest'' \<and> Image_p svc1_part000 = ''d.puneet.cc/app:latest''
     \<and> registryAuth stuckEngine () = ''e30=''"
    by (simp add: demo_defs registryAuth_def privateDockerRegistry_def)
  have s: "startCalls stuckEngine c h nm e = [CallContainerStart ''c0ffee'']" for c h nm e
    by (simp add: startCalls_def demo_defs)
  note t = cleanup_failure_not_fatal
    [of svc1 stuckEngine world0 "()" 1 2 "Some (ErrorString ''stop timed out'')" 3
        "Some (ErrorString ''removal in progress'')" 4 asciiLib svc1_part000]
  have a: "newCalls world0 (snd (startContainer asciiLib stuckEngine svc1 world0)) =
        [CallImagePull (Image svc1) (registryAuth stuckEngine ()),
         CallContainerInspect (ContainerName svc1),
         CallContainerStop (ContainerName svc1),
         CallContainerRemove (ContainerName svc1)]
        @ (case fst (resourceLimits asciiLib svc1 restartAlways world0) of
             Returns (Inr hc) \<Rightarrow>
               CallContainerCreate (containerConfig svc1) (hostConfigOf svc1 hc)
                 (ContainerName svc1)
               # startCalls stuckEngine (containerConfig svc1) (hostConfigOf svc1 hc)
                   (ContainerName svc1) 4
           | _ \<Rightarrow> [])"
    using t h1 by blast
  have b: "newCalls world0 (snd (startContainer_part000 asciiLib stuckEngine svc1_part000 world0)) =
      [CallImagePull (Image_p svc1_part000) [],
       CallContainerInspect (ContainerName_p svc1_part000),
       CallContainerStop (ContainerName_p svc1_part000),
       CallContainerRemove (ContainerName_p svc1_part000),
       CallContainerCreate (containerConfig_part000 svc1_part000) (hostConfig_part000 svc1_part000)
         (ContainerName_p svc1_part000)]
      @ startCalls stuckEngine (containerConfig_part000 svc1_part000) (hostConfig_part000 svc1_part000)
          (ContainerName_p svc1_part000) 4"
    using t h2 by blast
  show ?thesis using h1 a b by (simp add: n s h3)
qed

section \<open>Restart policy\<close>

text \<open>
  C7, as amended. Every create call that a run of main.go's \<open>startContainer\<close> makes
  carries a host configuration whose restart policy is \<open>always\<close>; every create call
  of part_000 carries the empty restart policy.
\<close>

theorem restart_policy_always:
  "(\<forall>(cfg, hc, name) \<in> set (createdWith (newCalls w (snd (startContainer L D request w)))).
      Name (hc_RestartPolicy hc) = ''always'')
   \<and> (\<forall>(cfg, hc, name) \<in> set (createdWith (newCalls w (snd (startContainer_part000 L D request_p w)))).
      Name (hc_RestartPolicy hc) = [])"
proof (intro conjI ballI; clarify)
  fix cfg hc name
  assume "(cfg, hc, name) \<in> set (createdWith (newCalls w (snd (startContainer L D request w))))"
  from startContainer_created [OF this] obtain hc0 where
    "fst (resourceLimits L request restartAlways w) = Returns (Inr hc0)" "hc = hostConfigOf request hc0"
    by blast
  then show "Name (hc_RestartPolicy hc) = ''always''"
    using hostConfigOf_restart by simp
next
  fix cfg hc name
  assume "(cfg, hc, name) \<in> set (createdWith (newCalls w (snd (startContainer_part000 L D request_p w))))"
  from startContainer_part000_created [OF this]
  show "Name (hc_RestartPolicy hc) = []"
    by (simp add: hostConfig_part000_restart)
qed

theorem restart_policy_always_witness:
  "restartPolicies (newCalls world0 (snd (startContainer asciiLib okEngine svc1 world0))) = [''always'']
   \<and> restartPolicies (newCalls world0 (snd (startContainer_part000 asciiLib okEngine svc1_part000 world0))) = [[]]"
proof -
  let ?c = "createdWith (newCalls world0 (snd (startContainer asciiLib okEngine svc1 world0)))"
  let ?p = "createdWith (newCalls world0 (snd (startContainer_part000 asciiLib okEngine svc1_part000 world0)))"
  have c: "length ?c = 1" by (simp add: run_defs)
  have p: "length ?p = 1" by (simp add: run_defs)
  from c obtain x where x: "?c = [x]" by (cases ?c) auto
  from p obtain y where y: "?p = [y]" by (cases ?p) auto
  from restart_policy_always [of world0 asciiLib okEngine svc1 svc1_part000] x y
  show ?thesis
    by (cases x; cases y) (simp add: restartPolicies_def)
qed

text \<open>
  The claim as stated fails in part_000, whose host configuration starts from the zero
  value and is never given a restart policy: the create call of the end-to-end example
  carries the empty policy name.
\<close>

theorem part000_no_restart_policy_counterexample:
  "restartPolicies (calls (snd (startContainer_part000 asciiLib okEngine svc1_part000 world0))) = [[]]
   \<and> fst (startContainer_part000 asciiLib okEngine svc1_part000 world0) = Returns None"
  by (simp add: run_defs restartPolicies_def)

section \<open>Port bindings\<close>

lemma port_bindings_as_built:
  assumes hc: "hc_PortBindings hc = portMap ports"
    and cfg: "cfg_ExposedPorts cfg = Container ` set ports"
  shows "(\<forall>p \<in> set ports. \<forall>before after.
            ports = before @ p # after \<and> Container p \<notin> Container ` set after \<longrightarrow>
            hc_PortBindings hc (Container p) = Some [\<lparr>HostIP = ''0.0.0.0'', HostPort = Host p\<rparr>])
       \<and> (distinct (map Container ports) \<longrightarrow>
            (\<forall>p \<in> set ports.
               hc_PortBindings hc (Container p) = Some [\<lparr>HostIP = ''0.0.0.0'', HostPort = Host p\<rparr>]))
       \<and> dom (hc_PortBindings hc) = Container ` set ports
       \<and> (\<forall>c b. hc_PortBindings hc c = Some b \<longrightarrow>
            (\<exists>p \<in> set ports. Container p = c \<and> b = [\<lparr>HostIP = ''0.0.0.0'', HostPort = Host p\<rparr>]))
       \<and> cfg_ExposedPorts cfg = Container ` set ports"
proof (intro conjI ballI allI impI)
  fix p before after
  assume "ports = before @ p # after \<and> Container p \<notin> Container ` set after"
  then show "hc_PortBindings hc (Container p) = Some [\<lparr>HostIP = ''0.0.0.0'', HostPort = Host p\<rparr>]"
    using portMap_last [of ports before p after] by (simp add: hc hostBinding_def)
next
  fix p
  assume "distinct (map Container ports)" "p \<in> set ports"
  then show "hc_PortBindings hc (Container p) = Some [\<lparr>HostIP = ''0.0.0.0'', HostPort = Host p\<rparr>]"
    using portMap_distinct [of ports p] by (simp add: hc hostBinding_def)
next
  show "dom (hc_PortBindings hc) = Container ` set ports"
    by (simp add: hc dom_portMap)
next
  fix c b
  assume "hc_PortBindings hc c = Some b"
  then show "\<exists>p \<in> set ports. Container p = c \<and> b = [\<lparr>HostIP = ''0.0.0.0'', HostPort = Host p\<rparr>]"
    using portMap_Some [of ports c b] by (simp add: hc hostBinding_def)
next
  show "cfg_ExposedPorts cfg = Container ` set ports" by (rule cfg)
qed

text \<open>
  C8, as amended. In every create call of either program: a port binding of the request
  that no later binding repeats the container port of (so every binding, when the container
  ports are distinct) has its container port mapped to exactly one host binding, with host
  IP \<open>0.0.0.0\<close> and its host port; the container ports of the request are exactly
  the ports the host configuration maps, each to one such binding of the request; and the
  exposed-port set of the container configuration is exactly the set of container ports of
  the request.
\<close>

theorem port_bindings_last_wins:
  "(\<forall>(cfg, hc, name) \<in> set (createdWith (newCalls w (snd (startContainer L D request w)))).
      (\<forall>p \<in> set (PortBindings request). \<forall>before after.
          PortBindings request = before @ p # after \<and> Container p \<notin> Container ` set after \<longrightarrow>
          hc_PortBindings hc (Container p) = Some [\<lparr>HostIP = ''0.0.0.0'', HostPort = Host p\<rparr>])
      \<and> (distinct (map Container (PortBindings request)) \<longrightarrow>
          (\<forall>p \<in> set (PortBindings request).
             hc_PortBindings hc (Container p) = Some [\<lparr>HostIP = ''0.0.0.0'', HostPort = Host p\<rparr>]))
      \<and> dom (hc_PortBindings hc) = Container ` set (PortBindings request)
      \<and> (\<forall>c b. hc_PortBindings hc c = Some b \<longrightarrow>
          (\<exists>p \<in> set (PortBindings request).
             Container p = c \<and> b = [\<lparr>HostIP = ''0.0.0.0'', HostPort = Host p\<rparr>]))
      \<and> cfg_ExposedPorts cfg = Container ` set (PortBindings request))
   \<and> (\<forall>(cfg, hc, name) \<in> set (createdWith (newCalls w (snd (startContainer_part000 L D request_p w)))).
      (\<forall>p \<in> set (PortBindings_p request_p). \<forall>before after.
          PortBindings_p request_p = before @ p # after \<and> Container p \<notin> Container ` set after \<longrightarrow>
          hc_PortBindings hc (Container p) = Some [\<lparr>HostIP = ''0.0.0.0'', HostPort = Host p\<rparr>])
      \<and> (distinct (map Container (PortBindings_p request_p)) \<longrightarrow>
          (\<forall>p \<in> set (PortBindings_p request_p).
             hc_PortBindings hc (Container p) = Some [\<lparr>HostIP = ''0.0.0.0'', HostPort = Host p\<rparr>]))
      \<and> dom (hc_PortBindings hc) = Container ` set (PortBindings_p request_p)
      \<and> (\<forall>c b. hc_PortBindings hc c = Some b \<longrightarrow>
          (\<exists>p \<in> set (PortBindings_p request_p).
             Container p = c \<and> b = [\<lparr>HostIP = ''0.0.0.0'', HostPort = Host p\<rparr>]))
      \<and> cfg_ExposedPorts cfg = Container ` set (PortBindings_p request_p))"
proof -
  have main: "hc_PortBindings hc = portMap (PortBindings request)
      \<and> cfg_ExposedPorts cfg = Container ` set (PortBindings request)"
    if "(cfg, hc, name) \<in> set (createdWith (newCalls w (snd (startContainer L D request w))))"
    for cfg hc name
  proof -
    from startContainer_created [OF that] obtain hc0 where
      h: "fst (resourceLimits L request restartAlways w) = Returns (Inr hc0)"
        "hc = hostConfigOf request hc0" "cfg = containerConfig request"
      by blast
    show ?thesis
      using hostConfigOf_ports [OF h(1)] h(2,3) by (simp add: containerConfig_exposed)
  qed
  have p0: "hc_PortBindings hc = portMap (PortBindings_p request_p)
      \<and> cfg_ExposedPorts cfg = Container ` set (PortBindings_p request_p)"
    if "(cfg, hc, name) \<in> set (createdWith (newCalls w (snd (startContainer_part000 L D request_p w))))"
    for cfg hc name
    using startContainer_part000_created [OF that]
    by (simp add: hostConfig_part000_ports containerConfig_part000_exposed)
  show ?thesis
  proof (intro conjI)
    show "\<forall>(cfg, hc, name) \<in> set (createdWith (newCalls w (snd (startContainer L D request w)))).
      (\<forall>p \<in> set (PortBindings request). \<forall>before after.
          PortBindings request = before @ p # after \<and> Container p \<notin> Container ` set after \<longrightarrow>
          hc_PortBindings hc (Container p) = Some [\<lparr>HostIP = ''0.0.0.0'', HostPort = Host p\<rparr>])
      \<and> (distinct (map Container (PortBindings request)) \<longrightarrow>
          (\<forall>p \<in> set (PortBindings request).
             hc_PortBindings hc (Container p) = Some [\<lparr>HostIP = ''0.0.0.0'', HostPort = Host p\<rparr>]))
      \<and> dom (hc_PortBindings hc) = Container ` set (PortBindings request)
      \<and> (\<forall>c b. hc_PortBindings hc c = Some b \<longrightarrow>
          (\<exists>p \<in> set (PortBindings request).
             Container p = c \<and> b = [\<lparr>HostIP = ''0.0.0.0'', HostPort = Host p\<rparr>]))
      \<and> cfg_ExposedPorts cfg = Container ` set (PortBindings request)"
    proof (intro ballI, clarify)
      fix cfg hc name
      assume "(cfg, hc, name) \<in> set (createdWith (newCalls w (snd (startContainer L D request w))))"
      from main [OF this] have a: "hc_PortBindings hc = portMap (PortBindings request)"
        and b: "cfg_ExposedPorts cfg = Container ` set (PortBindings request)" by simp_all
      from port_bindings_as_built [OF a b]
      show "(\<forall>p \<in> set (PortBindings request). \<forall>before after.
          PortBindings request = before @ p # after \<and> Container p \<notin> Container ` set after \<longrightarrow>
          hc_PortBindings hc (Container p) = Some [\<lparr>HostIP = ''0.0.0.0'', HostPort = Host p\<rparr>])
      \<and> (distinct (map Container (PortBindings request)) \<longrightarrow>
          (\<forall>p \<in> set (PortBindings request).
             hc_PortBindings hc (Container p) = Some [\<lparr>HostIP = ''0.0.0.0'', HostPort = Host p\<rparr>]))
      \<and> dom (hc_PortBindings hc) = Container ` set (PortBindings request)
      \<and> (\<forall>c b. hc_PortBindings hc c = Some b \<longrightarrow>
          (\<exists>p \<in> set (PortBindings request).
             Container p = c \<and> b = [\<lparr>HostIP = ''0.0.0.0'', HostPort = Host p\<rparr>]))
      \<and> cfg_ExposedPorts cfg = Container ` set (PortBindings request)" .
    qed
  next
    show "\<forall>(cfg, hc, name) \<in> set (createdWith (newCalls w (snd (startContainer_part000 L D request_p w)))).
      (\<forall>p \<in> set (PortBindings_p request_p). \<forall>before after.
          PortBindings_p request_p = before @ p # after \<and> Container p \<notin> Container ` set after \<longrightarrow>
          hc_PortBindings hc (Container p) = Some [\<lparr>HostIP = ''0.0.0.0'', HostPort = Host p\<rparr>])
      \<and> (distinct (map Container (PortBindings_p request_p)) \<longrightarrow>
          (\<forall>p \<in> set (PortBindings_p request_p).
             hc_PortBindings hc (Container p) = Some [\<lparr>HostIP = ''0.0.0.0'', HostPort = Host p\<rparr>]))
      \<and> dom (hc_PortBindings hc) = Container ` set (PortBindings_p request_p)
      \<and> (\<forall>c b. hc_PortBindings hc c = Some b \<longrightarrow>
          (\<exists>p \<in> set (PortBindings_p request_p).
             Container p = c \<and> b = [\<lparr>HostIP = ''0.0.0.0'', HostPort = Host p\<rparr>]))
      \<and> cfg_ExposedPorts cfg = Container ` set (PortBindings_p request_p)"
    proof (intro ballI, clarify)
      fix cfg hc name
      assume "(cfg, hc, name) \<in> set (createdWith (newCalls w (snd (startContainer_part000 L D request_p w))))"
      from p0 [OF this] have a: "hc_PortBindings hc = portMap (PortBindings_p request_p)"
        and b: "cfg_ExposedPorts cfg = Container ` set (PortBindings_p request_p)" by simp_all
      from port_bindings_as_built [OF a b]
      show "(\<forall>p \<in> set (PortBindings_p request_p). \<forall>before after.
          PortBindings_p request_p = before @ p # after \<and> Container p \<notin> Container ` set after \<longrightarrow>
          hc_PortBindings hc (Container p) = Some [\<lparr>HostIP = ''0.0.0.0'', HostPort = Host p\<rparr>])
      \<and> (distinct (map Container (PortBindings_p request_p)) \<longrightarrow>
          (\<forall>p \<in> set (PortBindings_p request_p).
             hc_PortBindings hc (Container p) = Some [\<lparr>HostIP = ''0.0.0.0'', HostPort = Host p\<rparr>]))
      \<and> dom (hc_PortBindings hc) = Container ` set (PortBindings_p request_p)
      \<and> (\<forall>c b. hc_PortBindings hc c = Some b \<longrightarrow>
          (\<exists>p \<in> set (PortBindings_p request_p).
             Container p = c \<and> b = [\<lparr>HostIP = ''0.0.0.0'', HostPort = Host p\<rparr>]))
      \<and> cfg_ExposedPorts cfg = Container ` set (PortBindings_p request_p)" .
    qed
  qed
qed

theorem port_bindings_last_wins_witness:
  "distinct (map Container (PortBindings svc1))
   \<and> boundHostPorts ''80/tcp'' (newCalls world0 (snd (startContainer asciiLib okEngine svc1 world0))) =
       [Some [\<lparr>HostIP = ''0.0.0.0'', HostPort = ''8080''\<rparr>]]
   \<and> boundHostPorts ''80/tcp'' (newCalls world0 (snd (startContainer_part000 asciiLib okEngine svc1_part000 world0))) =
       [Some [\<lparr>HostIP = ''0.0.0.0'', HostPort = ''8080''\<rparr>]]"
proof -
  let ?c = "createdWith (newCalls world0 (snd (startContainer asciiLib okEngine svc1 world0)))"
  let ?p = "createdWith (newCalls world0 (snd (startContainer_part000 asciiLib okEngine svc1_part000 world0)))"
  let ?b = "\<lparr>Container = ''80/tcp'', Host = ''8080''\<rparr>"
  have d: "distinct (map Container (PortBindings svc1)) \<and> ?b \<in> set (PortBindings svc1)"
    by (simp add: svc1_def)
  have d': "distinct (map Container (PortBindings_p svc1_part000)) \<and> ?b \<in> set (PortBindings_p svc1_part000)"
    by (simp add: svc1_part000_def)
  have c: "length ?c = 1" by (simp add: run_defs)
  have p: "length ?p = 1" by (simp add: run_defs)
  from c obtain cfg hc name where x: "?c = [(cfg, hc, name)]"
    by (cases ?c) auto
  from p obtain cfg' hc' name' where y: "?p = [(cfg', hc', name')]"
    by (cases ?p) auto
  note t = port_bindings_last_wins [of world0 asciiLib okEngine svc1 svc1_part000]
  have a: "hc_PortBindings hc (Container ?b) = Some [\<lparr>HostIP = ''0.0.0.0'', HostPort = Host ?b\<rparr>]"
    using t x d by fastforce
  have b: "hc_PortBindings hc' (Container ?b) = Some [\<lparr>HostIP = ''0.0.0.0'', HostPort = Host ?b\<rparr>]"
    using t y d' by fastforce
  show ?thesis
    using a b d by (simp add: boundHostPorts_def x y)
qed

text \<open>
  The claim as stated fails when a container port is listed twice: the request binds
  \<open>80/tcp\<close> to the host ports 8080 and 9090, and the create call maps \<open>80/tcp\<close>
  to 9090 alone, so the binding to 8080 is not in the host configuration.
\<close>

theorem repeated_container_port_counterexample:
  "\<lparr>Container = ''80/tcp'', Host = ''8080''\<rparr> \<in> set twoHostPorts
   \<and> boundHostPorts ''80/tcp''
       (calls (snd (startContainer asciiLib okEngine (svc1\<lparr>PortBindings := twoHostPorts\<rparr>) world0))) =
       [Some [\<lparr>HostIP = ''0.0.0.0'', HostPort = ''9090''\<rparr>]]
   \<and> boundHostPorts ''80/tcp''
       (calls (snd (startContainer_part000 asciiLib okEngine
          (svc1_part000\<lparr>PortBindings_p := twoHostPorts\<rparr>) world0))) =
       [Some [\<lparr>HostIP = ''0.0.0.0'', HostPort = ''9090''\<rparr>]]"
  by (simp add: run_defs boundHostPorts_def)

section \<open>Registry credentials\<close>

lemma registryAuth_eq:
  "registryAuth D cfg = EncodeToString D (fst (Marshal D (fst (GetAuthConfig D cfg ''d.puneet.cc''))))"
  by (simp add: registryAuth_def privateDockerRegistry_def split: prod.split)

lemma startContainer_pulls:
  assumes "HasPrefix (Image request) ''d.puneet.cc''" and "Load D (ext w) = Inr cfg"
  shows "\<exists>cs. newCalls w (snd (startContainer L D request w)) =
           CallImagePull (Image request) (registryAuth D cfg) # cs"
  using startContainer_trace [of w L D request] assms
proof (elim disjE exE conjE)
  assume e: "newCalls w (snd (startContainer L D request w)) = []"
  obtain r e1 where pull: "ImagePull D (Image request) (registryAuth D cfg) (ext w) = (r, e1)"
    by force
  show ?thesis
  proof (cases r)
    case (Some err)
    then show ?thesis using assms pull
      by (simp add: startContainer_def privateDockerRegistry_def engineCall_eq newCalls_def)
  next
    case None
    let ?w1 = "w\<lparr>ext := e1, calls := calls w @ [CallImagePull (Image request) (registryAuth D cfg)]\<rparr>"
    obtain cl where cl: "calls (cleanup L D (ContainerName request) ?w1) = calls ?w1 @ cl"
        "createdWith cl = []"
      using cleanup_calls by blast
    have c1: "calls (cleanup L D (ContainerName request) ?w1)
        = calls w @ (CallImagePull (Image request) (registryAuth D cfg) # cl)"
      using cl(1) by simp
    have c2: "createdWith (CallImagePull (Image request) (registryAuth D cfg) # cl) = []"
      using cl(2) by simp
    from provision_created [OF c1 c2, of L D request] e
    show ?thesis
      using startContainer_reach [OF assms, of e1 L] pull None by auto
  qed
qed auto

text \<open>
  C9, as amended. For a request with an allowed image: when the credential configuration
  cannot be loaded, \<open>startContainer\<close> returns the error \<open>config load failed\<close>
  and makes no engine call; when it loads, the first engine call is the image pull, with
  whatever the lookup and the encoding produced, their errors being discarded.
\<close>

theorem credential_load_failure_fatal:
  "HasPrefix (Image request) ''d.puneet.cc'' \<longrightarrow>
     (\<forall>err. Load D (ext w) = Inl err \<longrightarrow>
        startContainer L D request w = (Returns (Some (ErrorString ''config load failed'')), w))
     \<and> (\<forall>cfg. Load D (ext w) = Inr cfg \<longrightarrow>
        take 1 (newCalls w (snd (startContainer L D request w))) =
          [CallImagePull (Image request)
             (EncodeToString D (fst (Marshal D (fst (GetAuthConfig D cfg ''d.puneet.cc'')))))])"
proof (intro impI conjI allI)
  fix err
  assume "HasPrefix (Image request) ''d.puneet.cc''" "Load D (ext w) = Inl err"
  then show "startContainer L D request w = (Returns (Some (ErrorString ''config load failed'')), w)"
    by (simp add: startContainer_def privateDockerRegistry_def)
next
  fix cfg
  assume "HasPrefix (Image request) ''d.puneet.cc''" "Load D (ext w) = Inr cfg"
  from startContainer_pulls [OF this, of L]
  show "take 1 (newCalls w (snd (startContainer L D request w))) =
          [CallImagePull (Image request)
             (EncodeToString D (fst (Marshal D (fst (GetAuthConfig D cfg ''d.puneet.cc'')))))]"
    by (auto simp: registryAuth_eq)
qed

theorem credential_load_failure_fatal_witness:
  "HasPrefix (Image svc1) ''d.puneet.cc''
   \<and> Load noConfigEngine (ext world0) = Inl (ErrorString ''open config.json: permission denied'')
   \<and> startContainer asciiLib noConfigEngine svc1 world0 =
       (Returns (Some (ErrorString ''config load failed'')), world0)
   \<and> Load noCredsEngine (ext world0) = Inr ()
   \<and> take 1 (newCalls world0 (snd (startContainer asciiLib noCredsEngine svc1 world0))) =
       [CallImagePull ''d.puneet.cc/app:latest'' ''e30='']"
proof -
  have h: "HasPrefix (Image svc1) ''d.puneet.cc''"
    by (simp add: svc1_def HasPrefix_def)
  have l1: "Load noConfigEngine (ext world0) = Inl (ErrorString ''open config.json: permission denied'')"
    by (simp add: demo_defs)
  have l2: "Load noCredsEngine (ext world0) = Inr ()"
    by (simp add: demo_defs)
  have v: "Image svc1 = ''d.puneet.cc/app:latest''
      \<and> EncodeToString noCredsEngine (fst (Marshal noCredsEngine (fst (GetAuthConfig noCredsEngine () ''d.puneet.cc'')))) = ''e30=''"
    by (simp add: demo_defs)
  have a: "startContainer asciiLib noConfigEngine svc1 world0 =
       (Returns (Some (ErrorString ''config load failed'')), world0)"
    using credential_load_failure_fatal [of svc1 noConfigEngine world0 asciiLib] h l1 by blast
  have b: "take 1 (newCalls world0 (snd (startContainer asciiLib noCredsEngine svc1 world0))) =
          [CallImagePull (Image svc1)
             (EncodeToString noCredsEngine (fst (Marshal noCredsEngine (fst (GetAuthConfig noCredsEngine () ''d.puneet.cc'')))))]"
    using credential_load_failure_fatal [of svc1 noCredsEngine world0 asciiLib] h l2 by blast
  show ?thesis using h l1 l2 a b v by simp
qed

text \<open>
  The claim as stated fails for the lookup: when it reports an error, the image is pulled
  all the same, with the encoding of the empty credentials, and the deploy succeeds.
\<close>

theorem credential_lookup_failure_counterexample:
  "snd (GetAuthConfig noCredsEngine () ''d.puneet.cc'') = Some (ErrorString ''credentials not found'')
   \<and> snd (Marshal noCredsEngine (fst (GetAuthConfig noCredsEngine () ''d.puneet.cc''))) = None
   \<and> fst (startContainer asciiLib noCredsEngine svc1 world0) = Returns None
   \<and> take 1 (calls (snd (startContainer asciiLib noCredsEngine svc1 world0))) =
       [CallImagePull ''d.puneet.cc/app:latest'' ''e30='']
   \<and> length (calls (snd (startContainer asciiLib noCredsEngine svc1 world0))) = 6"
  by (simp add: run_defs)

section \<open>Unparseable resource limits\<close>

text \<open>
  C5. The claim has every request with an unparseable memory string answered by a failure
  response. The request of the end-to-end example with the memory string \<open>5\<close> is
  not: after the pull and the cleanup the handler panics in \<open>convertToBytes\<close> and
  no response is built.
\<close>

theorem one_byte_memory_crashes_handler:
  "handler asciiLib okEngine decoded (svc1\<lparr>Memory := ''5''\<rparr>) world0 =
     (Panics SliceBoundsOutOfRange,
      \<lparr>ext = 4,
       calls = [CallImagePull ''d.puneet.cc/app:latest'' ''e30='',
                CallContainerInspect ''svc1'', CallContainerStop ''svc1'',
                CallContainerRemove ''svc1''],
       stdout = []\<rparr>)"
  by (simp add: handler_def run_defs)

lemma cleanup_calls_kinds:
  "\<exists>cs. calls (cleanup L D name w) = calls w @ cs \<and>
         set cs \<subseteq> {CallContainerInspect name, CallContainerStop name, CallContainerRemove name}"
proof (cases "fst (ContainerInspect D name (ext w))")
  case None
  obtain e2 where i: "ContainerInspect D name (ext w) = (None, e2)"
    using None by (cases "ContainerInspect D name (ext w)") auto
  obtain rs e3 where s: "ContainerStop D name e2 = (rs, e3)" by force
  obtain rr e4 where r: "ContainerRemove D name e3 = (rr, e4)" by force
  show ?thesis by (simp add: cleanup_existing [OF i s r])
next
  case (Some e)
  then obtain e2 where i: "ContainerInspect D name (ext w) = (Some e, e2)"
    by (cases "ContainerInspect D name (ext w)") auto
  show ?thesis by (simp add: cleanup_absent [OF i])
qed

lemma resourceLimits_parse_error:
  assumes "(Memory request \<noteq> [] \<and> convertToBytes L (Memory request) = Returns (Inl err))
         \<or> ((Memory request = [] \<or> (\<exists>m. convertToBytes L (Memory request) = Returns (Inr m)))
             \<and> CPUShares request \<noteq> [] \<and> ParseInt (CPUShares request) = Inl err)"
  shows "fst (resourceLimits L request hc w) = Returns (Inl err)"
  using assms by (auto simp: resourceLimits_def Let_def)

text \<open>
  When the memory string is not empty and \<open>convertToBytes\<close> returns an error, or the
  memory string is empty or converts and the CPU-share string is not empty and
  \<open>ParseInt\<close> returns an error: the steps after the cleanup return that error without
  an engine call, a whole run makes no create and no start call, and the handler answers
  500 with an error message, which is the parse error's whenever the image is allowed, the
  credential configuration loads and the pull succeeds.
\<close>

lemma parse_error_fails_deploy:
  fixes w :: "'e world"
  assumes "(Memory request \<noteq> [] \<and> convertToBytes L (Memory request) = Returns (Inl err))
         \<or> ((Memory request = [] \<or> (\<exists>m. convertToBytes L (Memory request) = Returns (Inr m)))
             \<and> CPUShares request \<noteq> [] \<and> ParseInt (CPUShares request) = Inl err)"
  shows "fst (provision L D request w) = Returns (Some err)"
    and "calls (snd (provision L D request w)) = calls w"
    and "filter (\<lambda>c. isCreate c \<or> isStart c) (newCalls w (snd (startContainer L D request w))) = []"
    and "\<exists>e. fst (startContainer L D request w) = Returns (Some e)"
    and "HasPrefix (Image request) ''d.puneet.cc'' \<Longrightarrow> Load D (ext w) = Inr cfg \<Longrightarrow>
         fst (ImagePull D (Image request) (registryAuth D cfg) (ext w)) = None \<Longrightarrow>
         fst (startContainer L D request w) = Returns (Some err)"
proof -
  have r: "fst (resourceLimits L request restartAlways w') = Returns (Inl err)" for w' :: "'e world"
    using assms by (rule resourceLimits_parse_error)
  show p1: "fst (provision L D request w) = Returns (Some err)"
    using provision_error [OF r, of D w] by simp
  show "calls (snd (provision L D request w)) = calls w"
    using provision_error [OF r, of D w] by simp
  have reach: "fst (startContainer L D request w) = Returns (Some err) \<and>
      filter (\<lambda>c. isCreate c \<or> isStart c) (newCalls w (snd (startContainer L D request w))) = []"
    if h: "HasPrefix (Image request) ''d.puneet.cc''" "Load D (ext w) = Inr cfg"
      "ImagePull D (Image request) (registryAuth D cfg) (ext w) = (None, e1)" for cfg e1
  proof -
    let ?w1 = "w\<lparr>ext := e1, calls := calls w @ [CallImagePull (Image request) (registryAuth D cfg)]\<rparr>"
    let ?w2 = "cleanup L D (ContainerName request) ?w1"
    have eq: "startContainer L D request w = provision L D request ?w2"
      by (rule startContainer_reach [OF h])
    obtain cl where cl: "calls ?w2 = calls ?w1 @ cl"
        "set cl \<subseteq> {CallContainerInspect (ContainerName request),
            CallContainerStop (ContainerName request), CallContainerRemove (ContainerName request)}"
      using cleanup_calls_kinds by blast
    have "filter (\<lambda>c. isCreate c \<or> isStart c) cl = []"
      using cl(2) by (auto simp: filter_empty_conv isCreate_def isStart_def)
    then show ?thesis
      using provision_error [OF r, of D ?w2] cl(1)
      by (simp add: eq newCalls_def isCreate_def isStart_def)
  qed
  show "fst (startContainer L D request w) = Returns (Some err)"
    if "HasPrefix (Image request) ''d.puneet.cc''" "Load D (ext w) = Inr cfg"
      "fst (ImagePull D (Image request) (registryAuth D cfg) (ext w)) = None"
    using reach [OF that(1,2), of "snd (ImagePull D (Image request) (registryAuth D cfg) (ext w))"] that(3)
    by (simp add: prod_eq_iff)
  have all: "(\<exists>e. fst (startContainer L D request w) = Returns (Some e)) \<and>
      filter (\<lambda>c. isCreate c \<or> isStart c) (newCalls w (snd (startContainer L D request w))) = []"
  proof (cases "HasPrefix (Image request) ''d.puneet.cc''")
    case False
    then show ?thesis by (simp add: startContainer_def privateDockerRegistry_def newCalls_def)
  next
    case pre: True
    show ?thesis
    proof (cases "Load D (ext w)")
      case (Inl e)
      then show ?thesis using pre
        by (simp add: startContainer_def privateDockerRegistry_def newCalls_def)
    next
      case (Inr cfg)
      obtain rp e1 where pull: "ImagePull D (Image request) (registryAuth D cfg) (ext w) = (rp, e1)"
        by force
      show ?thesis
      proof (cases rp)
        case None
        then show ?thesis using reach [OF pre Inr, of e1] pull by auto
      next
        case (Some e)
        then show ?thesis using pre Inr pull
          by (simp add: startContainer_def privateDockerRegistry_def engineCall_eq newCalls_def
              isCreate_def isStart_def)
      qed
    qed
  qed
  then show "filter (\<lambda>c. isCreate c \<or> isStart c) (newCalls w (snd (startContainer L D request w))) = []"
    and "\<exists>e. fst (startContainer L D request w) = Returns (Some e)"
    by simp_all
qed

lemma parse_error_response:
  assumes "(Memory request \<noteq> [] \<and> convertToBytes L (Memory request) = Returns (Inl err))
         \<or> ((Memory request = [] \<or> (\<exists>m. convertToBytes L (Memory request) = Returns (Inr m)))
             \<and> CPUShares request \<noteq> [] \<and> ParseInt (CPUShares request) = Inl err)"
    and "BodyParser body = Inr request"
  shows "\<exists>e. fst (handler L D BodyParser body w) =
           Returns \<lparr>Status = 500, json_error = 1, json_message = Error L e\<rparr>"
    and "HasPrefix (Image request) ''d.puneet.cc'' \<Longrightarrow> Load D (ext w) = Inr cfg \<Longrightarrow>
         fst (ImagePull D (Image request) (registryAuth D cfg) (ext w)) = None \<Longrightarrow>
         fst (handler L D BodyParser body w) =
           Returns \<lparr>Status = 500, json_error = 1, json_message = Error L err\<rparr>"
proof -
  from parse_error_fails_deploy(4) [OF assms(1), of D w]
  obtain e where "fst (startContainer L D request w) = Returns (Some e)" by blast
  then show "\<exists>e. fst (handler L D BodyParser body w) =
           Returns \<lparr>Status = 500, json_error = 1, json_message = Error L e\<rparr>"
    using assms(2) by (cases "startContainer L D request w") (auto simp: handler_def)
  show "fst (handler L D BodyParser body w) =
           Returns \<lparr>Status = 500, json_error = 1, json_message = Error L err\<rparr>"
    if "HasPrefix (Image request) ''d.puneet.cc''" "Load D (ext w) = Inr cfg"
      "fst (ImagePull D (Image request) (registryAuth D cfg) (ext w)) = None"
    using parse_error_fails_deploy(5) [OF assms(1) that] assms(2)
    by (cases "startContainer L D request w") (auto simp: handler_def)
qed

section \<open>The HTTP handler\<close>

lemma createAndStart_fst:
  "fst (createAndStart L D cfg hc name w) =
     (case fst (ContainerCreate D cfg hc name (ext w)) of
        Inl err \<Rightarrow> Some err
      | Inr cid \<Rightarrow> fst (ContainerStart D cid (snd (ContainerCreate D cfg hc name (ext w)))))"
  by (simp add: createAndStart_def engineCall_eq Let_def Println_def split: prod.split sum.split)

lemma provision_fst_ok:
  assumes "fst (resourceLimits L request restartAlways w) = Returns (Inr hc)"
  shows "fst (provision L D request w) =
           Returns (fst (createAndStart L D (containerConfig request) (hostConfigOf request hc)
                      (ContainerName request) (snd (resourceLimits L request restartAlways w))))"
  using assms
  by (cases "resourceLimits L request restartAlways w")
     (simp add: provision_def restartAlways_def [symmetric] hostConfigOf_def [symmetric]
        split: prod.split)

lemma startContainer_reach_cleaned:
  assumes "HasPrefix (Image request) ''d.puneet.cc''"
    and "Load D (ext w) = Inr cfg"
    and "ImagePull D (Image request) (registryAuth D cfg) (ext w) = (None, e1)"
  shows "startContainer L D request w = provision L D request (cleaned L D request cfg e1 w)"
  using startContainer_reach [OF assms] by (simp add: cleaned_def pulled_def)

lemma startContainer_foreign:
  "\<not> HasPrefix (Image request) ''d.puneet.cc'' \<Longrightarrow>
   startContainer L D request w =
     (Returns (Some (ErrorString ''only d.puneet.cc images supported'')), w)"
  by (simp add: startContainer_def privateDockerRegistry_def)

lemma startContainer_no_config:
  "HasPrefix (Image request) ''d.puneet.cc'' \<Longrightarrow> Load D (ext w) = Inl err \<Longrightarrow>
   startContainer L D request w = (Returns (Some (ErrorString ''config load failed'')), w)"
  by (simp add: startContainer_def privateDockerRegistry_def)

lemma startContainer_pull_error:
  "HasPrefix (Image request) ''d.puneet.cc'' \<Longrightarrow> Load D (ext w) = Inr cfg \<Longrightarrow>
   ImagePull D (Image request) (registryAuth D cfg) (ext w) = (Some err, e1) \<Longrightarrow>
   startContainer L D request w =
     (Returns (Some err), pulled w (Image request) (registryAuth D cfg) e1)"
  by (simp add: startContainer_def privateDockerRegistry_def engineCall_eq pulled_def)

lemma startContainer_create_start:
  assumes "HasPrefix (Image request) ''d.puneet.cc''"
    and "Load D (ext w) = Inr cfg"
    and "ImagePull D (Image request) (registryAuth D cfg) (ext w) = (None, e1)"
    and "fst (resourceLimits L request restartAlways w) = Returns (Inr hc)"
  shows "fst (startContainer L D request w) =
           Returns (case fst (createResult L D request cfg e1 hc w) of
                      Inl err \<Rightarrow> Some err
                    | Inr cid \<Rightarrow> fst (ContainerStart D cid (snd (createResult L D request cfg e1 hc w))))"
proof -
  let ?w2 = "cleaned L D request cfg e1 w"
  have r: "fst (resourceLimits L request restartAlways ?w2) = Returns (Inr hc)"
    using assms(4) resourceLimits_fst [of L request restartAlways ?w2 w] by simp
  have e: "ext (snd (resourceLimits L request restartAlways ?w2)) = ext ?w2"
    using resourceLimits_frame [of L request restartAlways ?w2] by simp
  show ?thesis
    using provision_fst_ok [OF r, of D]
    by (simp add: startContainer_reach_cleaned [OF assms(1,2,3)] createAndStart_fst e
        createResult_def split: sum.split)
qed

lemma startContainer_part000_foreign:
  "\<not> HasPrefix (Image_p request) ''d.puneet.cc'' \<Longrightarrow>
   startContainer_part000 L D request w =
     (Returns (Some (ErrorString ''only d.puneet.cc images supported'')), w)"
  by (simp add: startContainer_part000_def)

lemma startContainer_part000_pull_error:
  "HasPrefix (Image_p request) ''d.puneet.cc'' \<Longrightarrow>
   ImagePull D (Image_p request) [] (ext w) = (Some err, e1) \<Longrightarrow>
   startContainer_part000 L D request w = (Returns (Some err), pulled w (Image_p request) [] e1)"
  by (simp add: startContainer_part000_def engineCall_eq pulled_def)

lemma startContainer_part000_create_start:
  assumes "HasPrefix (Image_p request) ''d.puneet.cc''"
    and "ImagePull D (Image_p request) [] (ext w) = (None, e1)"
  shows "fst (startContainer_part000 L D request w) =
           Returns (case fst (createResult_part000 L D request e1 w) of
                      Inl err \<Rightarrow> Some err
                    | Inr cid \<Rightarrow> fst (ContainerStart D cid (snd (createResult_part000 L D request e1 w))))"
  using startContainer_part000_reach [OF assms, of L]
  by (simp add: Let_def createAndStart_fst createResult_part000_def cleaned_part000_def pulled_def
      split: sum.split)

lemma handler_of_result:
  assumes "BodyParser body = Inr request"
    and "fst (startContainer L D request w) = Returns r"
  shows "fst (handler L D BodyParser body w) =
           Returns (case r of Some err \<Rightarrow> failed (Error L err) | None \<Rightarrow> started)"
  using assms
  by (cases "startContainer L D request w")
     (simp add: handler_def started_def failed_def split: option.split)

lemma handler_part000_of_result:
  assumes "BodyParser body = Inr request"
    and "fst (startContainer_part000 L D request w) = Returns r"
  shows "fst (handler_part000 L D key key BodyParser body w) =
           Returns (case r of Some err \<Rightarrow> failed (Error L err) | None \<Rightarrow> started)"
  using assms
  by (cases "startContainer_part000 L D request w")
     (simp add: handler_part000_def started_def failed_def split: option.split)


text \<open>
  C6, as amended. The handler answers 200 with
  \<open>{"error":0,"message":"Container Started"}\<close> when the image is allowed, the
  credential configuration loads, the pull succeeds, the resource limits parse and the create
  and start calls succeed. It answers 500 with \<open>{"error":1,"message":m}\<close> when the
  body does not decode (\<open>m\<close> the decoder's message), the image is not allowed, the
  credential configuration does not load (\<open>m\<close> is \<open>config load failed\<close>), the
  memory or CPU-share string makes its parser return an error, or the pull, the create or
  the start call returns an error (\<open>m\<close> that error's message). Every response it
  returns is one of the two. The same holds in part_000, without the credential and parse
  steps and with 500 \<open>Unauthorised Access\<close> when the key header differs from the
  secret.
\<close>

theorem handler_responses:
  "started = \<lparr>Status = 200, json_error = 0, json_message = ''Container Started''\<rparr>
   \<and> failed m = \<lparr>Status = 500, json_error = 1, json_message = m\<rparr>
   \<and> (BodyParser body = Inl err \<longrightarrow>
        handler L D BodyParser body w = (Returns (failed (Error L err)), w))
   \<and> (BodyParser body = Inr request \<longrightarrow>
        (\<not> HasPrefix (Image request) ''d.puneet.cc'' \<longrightarrow>
           handler L D BodyParser body w =
             (Returns (failed ''only d.puneet.cc images supported''), w))
      \<and> (HasPrefix (Image request) ''d.puneet.cc'' \<and> Load D (ext w) = Inl err \<longrightarrow>
           handler L D BodyParser body w = (Returns (failed ''config load failed''), w))
      \<and> (HasPrefix (Image request) ''d.puneet.cc'' \<and> Load D (ext w) = Inr cfg
          \<and> ImagePull D (Image request) (registryAuth D cfg) (ext w) = (Some err, e1) \<longrightarrow>
           handler L D BodyParser body w =
             (Returns (failed (Error L err)), pulled w (Image request) (registryAuth D cfg) e1))
      \<and> (HasPrefix (Image request) ''d.puneet.cc'' \<and> Load D (ext w) = Inr cfg
          \<and> ImagePull D (Image request) (registryAuth D cfg) (ext w) = (None, e1) \<longrightarrow>
           ((Memory request \<noteq> [] \<and> convertToBytes L (Memory request) = Returns (Inl err))
            \<or> ((Memory request = [] \<or> (\<exists>m. convertToBytes L (Memory request) = Returns (Inr m)))
                \<and> CPUShares request \<noteq> [] \<and> ParseInt (CPUShares request) = Inl err) \<longrightarrow>
              fst (handler L D BodyParser body w) = Returns (failed (Error L err)))
         \<and> (fst (resourceLimits L request restartAlways w) = Returns (Inr hc) \<longrightarrow>
              (fst (createResult L D request cfg e1 hc w) = Inl err \<longrightarrow>
                 fst (handler L D BodyParser body w) = Returns (failed (Error L err)))
            \<and> (fst (createResult L D request cfg e1 hc w) = Inr cid
                \<and> fst (ContainerStart D cid (snd (createResult L D request cfg e1 hc w))) = Some err \<longrightarrow>
                 fst (handler L D BodyParser body w) = Returns (failed (Error L err)))
            \<and> (fst (createResult L D request cfg e1 hc w) = Inr cid
                \<and> fst (ContainerStart D cid (snd (createResult L D request cfg e1 hc w))) = None \<longrightarrow>
                 fst (handler L D BodyParser body w) = Returns started))))
   \<and> (\<forall>resp. fst (handler L D BodyParser body w) = Returns resp \<longrightarrow>
        resp = started \<or> (\<exists>e. resp = failed (Error L e)))
   \<and> (apiKey \<noteq> secret \<longrightarrow>
        handler_part000 L D apiKey secret BodyParser_p body w =
          (Returns (failed ''Unauthorised Access''), w))
   \<and> (apiKey = secret \<longrightarrow>
        (BodyParser_p body = Inl err \<longrightarrow>
           handler_part000 L D apiKey secret BodyParser_p body w =
             (Returns (failed (Error L err)), w))
      \<and> (BodyParser_p body = Inr request_p \<longrightarrow>
           (\<not> HasPrefix (Image_p request_p) ''d.puneet.cc'' \<longrightarrow>
              handler_part000 L D apiKey secret BodyParser_p body w =
                (Returns (failed ''only d.puneet.cc images supported''), w))
         \<and> (HasPrefix (Image_p request_p) ''d.puneet.cc''
             \<and> ImagePull D (Image_p request_p) [] (ext w) = (Some err, e1) \<longrightarrow>
              handler_part000 L D apiKey secret BodyParser_p body w =
                (Returns (failed (Error L err)), pulled w (Image_p request_p) [] e1))
         \<and> (HasPrefix (Image_p request_p) ''d.puneet.cc''
             \<and> ImagePull D (Image_p request_p) [] (ext w) = (None, e1) \<longrightarrow>
              (fst (createResult_part000 L D request_p e1 w) = Inl err \<longrightarrow>
                 fst (handler_part000 L D apiKey secret BodyParser_p body w) =
                   Returns (failed (Error L err)))
            \<and> (fst (createResult_part000 L D request_p e1 w) = Inr cid
                \<and> fst (ContainerStart D cid (snd (createResult_part000 L D request_p e1 w))) = Some err \<longrightarrow>
                 fst (handler_part000 L D apiKey secret BodyParser_p body w) =
                   Returns (failed (Error L err)))
            \<and> (fst (createResult_part000 L D request_p e1 w) = Inr cid
                \<and> fst (ContainerStart D cid (snd (createResult_part000 L D request_p e1 w))) = None \<longrightarrow>
                 fst (handler_part000 L D apiKey secret BodyParser_p body w) = Returns started))))
   \<and> (\<forall>resp. fst (handler_part000 L D apiKey secret BodyParser_p body w) = Returns resp \<longrightarrow>
        resp = started \<or> Status resp = 500 \<and> json_error resp = 1)"
proof -
  have d: "started = \<lparr>Status = 200, json_error = 0, json_message = ''Container Started''\<rparr>"
      "failed m = \<lparr>Status = 500, json_error = 1, json_message = m\<rparr>"
    by (simp_all add: started_def failed_def)
  have m1: "handler L D BodyParser body w = (Returns (failed (Error L err)), w)"
    if "BodyParser body = Inl err"
    using that by (simp add: handler_def failed_def)
  have m2: "handler L D BodyParser body w =
             (Returns (failed ''only d.puneet.cc images supported''), w)"
    if "BodyParser body = Inr request" "\<not> HasPrefix (Image request) ''d.puneet.cc''"
    using that startContainer_foreign [of request L D w] by (simp add: handler_def failed_def)
  have m3: "handler L D BodyParser body w = (Returns (failed ''config load failed''), w)"
    if "BodyParser body = Inr request" "HasPrefix (Image request) ''d.puneet.cc''"
      "Load D (ext w) = Inl err"
    using that(1) startContainer_no_config [OF that(2,3), of L] by (simp add: handler_def failed_def)
  have m4: "handler L D BodyParser body w =
             (Returns (failed (Error L err)), pulled w (Image request) (registryAuth D cfg) e1)"
    if "BodyParser body = Inr request" "HasPrefix (Image request) ''d.puneet.cc''"
      "Load D (ext w) = Inr cfg"
      "ImagePull D (Image request) (registryAuth D cfg) (ext w) = (Some err, e1)"
    using that(1) startContainer_pull_error [OF that(2,3,4), of L] by (simp add: handler_def failed_def)
  have m5: "fst (handler L D BodyParser body w) = Returns (failed (Error L err))"
    if "BodyParser body = Inr request" "HasPrefix (Image request) ''d.puneet.cc''"
      "Load D (ext w) = Inr cfg"
      "ImagePull D (Image request) (registryAuth D cfg) (ext w) = (None, e1)"
      "(Memory request \<noteq> [] \<and> convertToBytes L (Memory request) = Returns (Inl err))
            \<or> ((Memory request = [] \<or> (\<exists>m. convertToBytes L (Memory request) = Returns (Inr m)))
                \<and> CPUShares request \<noteq> [] \<and> ParseInt (CPUShares request) = Inl err)"
  proof -
    have "fst (ImagePull D (Image request) (registryAuth D cfg) (ext w)) = None"
      using that(4) by simp
    from parse_error_fails_deploy(5) [OF that(5) that(2,3) this]
    have q: "fst (startContainer L D request w) = Returns (Some err)" .
    show ?thesis
      using handler_of_result [where BodyParser = BodyParser and body = body, OF that(1) q]
      by simp
  qed
  note cs = startContainer_create_start [of request D w cfg e1 L hc]
  have m6: "fst (handler L D BodyParser body w) = Returns (failed (Error L err))"
    if "BodyParser body = Inr request" "HasPrefix (Image request) ''d.puneet.cc''"
      "Load D (ext w) = Inr cfg"
      "ImagePull D (Image request) (registryAuth D cfg) (ext w) = (None, e1)"
      "fst (resourceLimits L request restartAlways w) = Returns (Inr hc)"
      "fst (createResult L D request cfg e1 hc w) = Inl err"
    using handler_of_result [where BodyParser = BodyParser and body = body, OF that(1) cs [OF that(2,3,4,5)]] that(6) by simp
  have m7: "fst (handler L D BodyParser body w) = Returns (failed (Error L err))"
    if "BodyParser body = Inr request" "HasPrefix (Image request) ''d.puneet.cc''"
      "Load D (ext w) = Inr cfg"
      "ImagePull D (Image request) (registryAuth D cfg) (ext w) = (None, e1)"
      "fst (resourceLimits L request restartAlways w) = Returns (Inr hc)"
      "fst (createResult L D request cfg e1 hc w) = Inr cid"
      "fst (ContainerStart D cid (snd (createResult L D request cfg e1 hc w))) = Some err"
    using handler_of_result [where BodyParser = BodyParser and body = body, OF that(1) cs [OF that(2,3,4,5)]] that(6,7) by simp
  have m8: "fst (handler L D BodyParser body w) = Returns started"
    if "BodyParser body = Inr request" "HasPrefix (Image request) ''d.puneet.cc''"
      "Load D (ext w) = Inr cfg"
      "ImagePull D (Image request) (registryAuth D cfg) (ext w) = (None, e1)"
      "fst (resourceLimits L request restartAlways w) = Returns (Inr hc)"
      "fst (createResult L D request cfg e1 hc w) = Inr cid"
      "fst (ContainerStart D cid (snd (createResult L D request cfg e1 hc w))) = None"
    using handler_of_result [where BodyParser = BodyParser and body = body, OF that(1) cs [OF that(2,3,4,5)]] that(6,7) by simp
  have m9: "\<forall>resp. fst (handler L D BodyParser body w) = Returns resp \<longrightarrow>
        resp = started \<or> (\<exists>e. resp = failed (Error L e))"
    by (auto simp: handler_def started_def failed_def
        split: sum.splits prod.splits go.splits option.splits)
  have p1: "handler_part000 L D apiKey secret BodyParser_p body w =
          (Returns (failed ''Unauthorised Access''), w)"
    if "apiKey \<noteq> secret"
    using that by (simp add: handler_part000_def failed_def)
  have p2: "handler_part000 L D apiKey secret BodyParser_p body w =
             (Returns (failed (Error L err)), w)"
    if "apiKey = secret" "BodyParser_p body = Inl err"
    using that by (simp add: handler_part000_def failed_def)
  have p3: "handler_part000 L D apiKey secret BodyParser_p body w =
                (Returns (failed ''only d.puneet.cc images supported''), w)"
    if "apiKey = secret" "BodyParser_p body = Inr request_p"
      "\<not> HasPrefix (Image_p request_p) ''d.puneet.cc''"
    using that(1,2) startContainer_part000_foreign [OF that(3), of L D w]
    by (simp add: handler_part000_def failed_def)
  have p4: "handler_part000 L D apiKey secret BodyParser_p body w =
                (Returns (failed (Error L err)), pulled w (Image_p request_p) [] e1)"
    if "apiKey = secret" "BodyParser_p body = Inr request_p"
      "HasPrefix (Image_p request_p) ''d.puneet.cc''"
      "ImagePull D (Image_p request_p) [] (ext w) = (Some err, e1)"
    using that(1,2) startContainer_part000_pull_error [OF that(3,4), of L]
    by (simp add: handler_part000_def failed_def)
  note ps = startContainer_part000_create_start [of request_p D w e1 L]
  have p5: "fst (handler_part000 L D apiKey secret BodyParser_p body w) =
                   Returns (failed (Error L err))"
    if "apiKey = secret" "BodyParser_p body = Inr request_p"
      "HasPrefix (Image_p request_p) ''d.puneet.cc''"
      "ImagePull D (Image_p request_p) [] (ext w) = (None, e1)"
      "fst (createResult_part000 L D request_p e1 w) = Inl err"
    using handler_part000_of_result [where BodyParser = BodyParser_p and body = body, OF that(2) ps [OF that(3,4)], where key = secret] that(1,5) by simp
  have p6: "fst (handler_part000 L D apiKey secret BodyParser_p body w) =
                   Returns (failed (Error L err))"
    if "apiKey = secret" "BodyParser_p body = Inr request_p"
      "HasPrefix (Image_p request_p) ''d.puneet.cc''"
      "ImagePull D (Image_p request_p) [] (ext w) = (None, e1)"
      "fst (createResult_part000 L D request_p e1 w) = Inr cid"
      "fst (ContainerStart D cid (snd (createResult_part000 L D request_p e1 w))) = Some err"
    using handler_part000_of_result [where BodyParser = BodyParser_p and body = body, OF that(2) ps [OF that(3,4)], where key = secret] that(1,5,6) by simp
  have p7: "fst (handler_part000 L D apiKey secret BodyParser_p body w) = Returns started"
    if "apiKey = secret" "BodyParser_p body = Inr request_p"
      "HasPrefix (Image_p request_p) ''d.puneet.cc''"
      "ImagePull D (Image_p request_p) [] (ext w) = (None, e1)"
      "fst (createResult_part000 L D request_p e1 w) = Inr cid"
      "fst (ContainerStart D cid (snd (createResult_part000 L D request_p e1 w))) = None"
    using handler_part000_of_result [where BodyParser = BodyParser_p and body = body, OF that(2) ps [OF that(3,4)], where key = secret] that(1,5,6) by simp
  have p8: "\<forall>resp. fst (handler_part000 L D apiKey secret BodyParser_p body w) = Returns resp \<longrightarrow>
        resp = started \<or> Status resp = 500 \<and> json_error resp = 1"
    by (auto simp: handler_part000_def started_def
        split: sum.splits prod.splits go.splits option.splits)
  show ?thesis
    apply (intro conjI impI; (elim conjE)?)
                      apply (rule d(1))
                      apply (rule d(2))
                     apply (erule m1)
                    apply (erule (1) m2)
                   apply (erule (2) m3)
                  apply (erule (3) m4)
                 apply (erule (4) m5)
                apply (erule (5) m6)
               apply (erule (6) m7)
              apply (erule (6) m8)
             apply (rule m9)
            apply (erule p1)
           apply (erule (1) p2)
          apply (erule (2) p3)
         apply (erule (3) p4)
        apply (erule (4) p5)
       apply (erule (5) p6)
      apply (erule (5) p7)
    apply (rule p8)
    done
qed


theorem handler_responses_witness:
  "fst (handler asciiLib okEngine decoded svc1 world0) =
     Returns \<lparr>Status = 200, json_error = 0, json_message = ''Container Started''\<rparr>
   \<and> handler asciiLib okEngine decoded (svc1\<lparr>Image := ''docker.io/app:latest''\<rparr>) world0 =
     (Returns \<lparr>Status = 500, json_error = 1, json_message = ''only d.puneet.cc images supported''\<rparr>,
      world0)
   \<and> calls world0 = []
   \<and> fst (handler asciiLib nameTakenEngine decoded svc1 world0) =
     Returns \<lparr>Status = 500, json_error = 1, json_message = ''name already in use''\<rparr>
   \<and> handler_part000 asciiLib okEngine ''k1'' ''k2'' decoded svc1_part000 world0 =
     (Returns \<lparr>Status = 500, json_error = 1, json_message = ''Unauthorised Access''\<rparr>, world0)"
proof -
  let ?bad = "svc1\<lparr>Image := ''docker.io/app:latest''\<rparr>"
  have ok: "decoded svc1 = Inr svc1" "HasPrefix (Image svc1) ''d.puneet.cc''"
      "Load okEngine (ext world0) = Inr ()"
      "ImagePull okEngine (Image svc1) (registryAuth okEngine ()) (ext world0) = (None, 1)"
      "fst (resourceLimits asciiLib svc1 restartAlways world0) = Returns (Inr restartAlways)"
      "fst (createResult asciiLib okEngine svc1 () 1 restartAlways world0) = Inr ''c0ffee''"
      "fst (ContainerStart okEngine ''c0ffee''
              (snd (createResult asciiLib okEngine svc1 () 1 restartAlways world0))) = None"
    by (simp_all add: run_defs)
  have taken: "Load nameTakenEngine (ext world0) = Inr ()"
      "ImagePull nameTakenEngine (Image svc1) (registryAuth nameTakenEngine ()) (ext world0) = (None, 1)"
      "fst (createResult asciiLib nameTakenEngine svc1 () 1 restartAlways world0) =
         Inl (ErrorString ''name already in use'')"
    by (simp_all add: run_defs)
  have bad: "decoded ?bad = Inr ?bad" "\<not> HasPrefix (Image ?bad) ''d.puneet.cc''"
    by (simp_all add: decoded_def HasPrefix_def)
  have k: "''k1'' \<noteq> ''k2''" by simp
  have a: "fst (handler asciiLib okEngine decoded svc1 world0) = Returns started"
    using handler_responses [where L = asciiLib and D = okEngine and BodyParser = decoded
        and body = svc1 and w = world0 and request = svc1 and cfg = "()" and ?e1.0 = 1
        and hc = restartAlways and cid = "''c0ffee''"] ok
    by blast
  have b: "handler asciiLib okEngine decoded ?bad world0 =
      (Returns (failed ''only d.puneet.cc images supported''), world0)"
    using handler_responses [where L = asciiLib and D = okEngine and BodyParser = decoded
        and body = ?bad and w = world0 and request = ?bad] bad
    by blast
  have c: "fst (handler asciiLib nameTakenEngine decoded svc1 world0) =
      Returns (failed (Error asciiLib (ErrorString ''name already in use'')))"
    using handler_responses [where L = asciiLib and D = nameTakenEngine and BodyParser = decoded
        and body = svc1 and w = world0 and request = svc1 and cfg = "()" and ?e1.0 = 1
        and hc = restartAlways and err = "ErrorString ''name already in use''"] ok(1,2,5) taken
    by blast
  have d: "handler_part000 asciiLib okEngine ''k1'' ''k2'' decoded svc1_part000 world0 =
      (Returns (failed ''Unauthorised Access''), world0)"
    using handler_responses [where L = asciiLib and D = okEngine and apiKey = "''k1''"
        and secret = "''k2''" and BodyParser_p = decoded and body = svc1_part000 and w = world0] k
    by blast
  show ?thesis using a b c d by (simp add: started_def failed_def world0_def)
qed

text \<open>
  The claim as stated counts a credential error among the failures answered with 500. The
  error of the credential lookup is discarded: the request of the end-to-end example is
  answered 200 when the lookup fails.
\<close>

theorem credential_error_answered_200_counterexample:
  "snd (GetAuthConfig noCredsEngine () ''d.puneet.cc'') = Some (ErrorString ''credentials not found'')
   \<and> fst (handler asciiLib noCredsEngine decoded svc1 world0) =
       Returns \<lparr>Status = 200, json_error = 0, json_message = ''Container Started''\<rparr>"
  by (simp add: handler_def run_defs)

end
